theory Spec2Isabelle
  imports Main
begin

section \<open>JavaScript values used by \<^verbatim>\<open>src/index.js\<close>\<close>

text \<open>
  The program is one JavaScript module. Its values are modelled as follows.
  \<^item> A string is the list of its UTF-16 code units, each a \<open>char\<close>, so each below
    256. Node.js decodes the bytes of a header value as Latin-1, so every header
    value is such a string; an environment value or a JSON string with a code unit
    from 256 on is outside the model.
  \<^item> A string-or-\<^verbatim>\<open>undefined\<close> (a header value, an environment variable, an
    argument of the handler) is a \<open>string option\<close>; \<open>None\<close> is \<^verbatim>\<open>undefined\<close>
    (or \<^verbatim>\<open>null\<close>).
  \<^item> A number is a \<open>jsnum\<close>: \<^verbatim>\<open>NaN\<close>, \<^verbatim>\<open>Infinity\<close>, \<^verbatim>\<open>-Infinity\<close> or an integer
    that a double holds. The numbers of this program come from \<^verbatim>\<open>parseInt\<close>,
    from products by 1000 and from \<^verbatim>\<open>Date.now()\<close>; the first two are rounded to
    the nearest double (\<open>toDouble\<close>), the clock is taken to stay below \<open>2^53\<close>,
    where differences are exact. The sign of zero is not kept: no comparison of
    the program tells \<^verbatim>\<open>-0\<close> from \<^verbatim>\<open>0\<close>.
  \<^item> A parsed JSON body is a \<open>json\<close>; \<open>JUndefined\<close> is the result of reading a
    property that is not there. JSON numbers are taken to be integers, and an
    object is the list of its key/value pairs as \<^verbatim>\<open>JSON.parse\<close> leaves them
    (keys distinct).
\<close>

datatype jsnum = NaN | Num int | PosInf | NegInf

datatype json =
    JUndefined
  | JNull
  | JBool bool
  | JNum int
  | JStr string
  | JArr "json list"
  | JObj "(string \<times> json) list"

text \<open>Truthiness, as \<^verbatim>\<open>if (x)\<close>, \<^verbatim>\<open>!x\<close> and \<^verbatim>\<open>x || y\<close> test it.\<close>

fun truthy_s :: "string option \<Rightarrow> bool" where
  "truthy_s None = False"
| "truthy_s (Some s) = (s \<noteq> [])"

definition or_s :: "string option \<Rightarrow> string option \<Rightarrow> string option" where
  "or_s a b = (if truthy_s a then a else b)"

text \<open>\<^verbatim>\<open>a || 'literal'\<close> with a non-empty literal: always a string.\<close>

definition or_lit :: "string option \<Rightarrow> string \<Rightarrow> string" where
  "or_lit a d = (case a of None \<Rightarrow> d | Some s \<Rightarrow> if s \<noteq> [] then s else d)"

fun truthy :: "json \<Rightarrow> bool" where
  "truthy JUndefined = False"
| "truthy JNull = False"
| "truthy (JBool b) = b"
| "truthy (JNum n) = (n \<noteq> 0)"
| "truthy (JStr s) = (s \<noteq> [])"
| "truthy (JArr xs) = True"
| "truthy (JObj kvs) = True"

definition or_j :: "json \<Rightarrow> json \<Rightarrow> json" where
  "or_j a b = (if truthy a then a else b)"

text \<open>
  \<^verbatim>\<open>x?.k\<close>: \<^verbatim>\<open>undefined\<close> when \<open>x\<close> is \<^verbatim>\<open>undefined\<close> or \<^verbatim>\<open>null\<close>, the property
  otherwise. The program reads only the names \<^verbatim>\<open>query_result\<close>, \<^verbatim>\<open>job\<close>,
  \<^verbatim>\<open>id\<close>, \<^verbatim>\<open>job_id\<close>, \<^verbatim>\<open>status\<close>, \<^verbatim>\<open>result\<close>, \<^verbatim>\<open>query_result_id\<close> and
  \<^verbatim>\<open>error\<close>, none of which a number, boolean, string or array has.
\<close>

fun getp :: "json \<Rightarrow> string \<Rightarrow> json" where
  "getp (JObj kvs) k = (case map_of kvs k of None \<Rightarrow> JUndefined | Some v \<Rightarrow> v)"
| "getp j k = JUndefined"

subsection \<open>Doubles\<close>

text \<open>The number of binary digits of a natural number.\<close>

fun bitLength :: "nat \<Rightarrow> nat" where
  "bitLength n = (if n = 0 then 0 else Suc (bitLength (n div 2)))"

text \<open>
  The double nearest to an integer: the integer itself below \<open>2^53\<close>; an
  infinity from \<open>2^1024\<close> on; between the two, its 53 leading binary digits,
  rounded to nearest with ties to the even neighbour, and an infinity again when
  the rounded value reaches \<open>2^1024\<close>.
\<close>

definition toDouble :: "int \<Rightarrow> jsnum" where
  "toDouble n =
     (let m = nat \<bar>n\<bar> in
      if m < 2 ^ 53 then Num n
      else if 2 ^ 1024 \<le> m then (if n < 0 then NegInf else PosInf)
      else
        (let e = bitLength m - 53;
             q = m div 2 ^ e;
             r = m mod 2 ^ e;
             q' = (if 2 ^ e < 2 * r \<or> (2 * r = 2 ^ e \<and> odd q) then q + 1 else q);
             v = q' * 2 ^ e
         in if 2 ^ 1024 \<le> v then (if n < 0 then NegInf else PosInf)
            else Num (if n < 0 then - int v else int v)))"

declare bitLength.simps [simp del]

text \<open>
  The product of two numbers: \<^verbatim>\<open>NaN\<close> when a factor is \<^verbatim>\<open>NaN\<close> or when zero meets
  an infinity, the rounded product of two integers, and an infinity of the
  product's sign otherwise.
\<close>

fun sign_of :: "jsnum \<Rightarrow> int" where
  "sign_of (Num a) = sgn a"
| "sign_of PosInf = 1"
| "sign_of NegInf = - 1"
| "sign_of NaN = 0"

fun js_mul :: "jsnum \<Rightarrow> jsnum \<Rightarrow> jsnum" where
  "js_mul NaN b = NaN"
| "js_mul a NaN = NaN"
| "js_mul (Num a) (Num b) = toDouble (a * b)"
| "js_mul a b =
     (if sign_of a * sign_of b = 0 then NaN
      else if 0 < sign_of a * sign_of b then PosInf else NegInf)"

text \<open>\<^verbatim>\<open>a < b\<close>: false when either is \<^verbatim>\<open>NaN\<close>.\<close>

fun js_lt :: "jsnum \<Rightarrow> jsnum \<Rightarrow> bool" where
  "js_lt (Num a) (Num b) = (a < b)"
| "js_lt (Num a) PosInf = True"
| "js_lt NegInf (Num b) = True"
| "js_lt NegInf PosInf = True"
| "js_lt a b = False"

subsection \<open>\<^verbatim>\<open>parseInt(s)\<close> with no radix\<close>

text \<open>
  ECMAScript's \<^verbatim>\<open>parseInt\<close>: leading white space is dropped, then an optional
  sign, then \<^verbatim>\<open>0x\<close> or \<^verbatim>\<open>0X\<close> selects radix 16 (radix 10 otherwise); the longest
  prefix of digits of that radix is the value, rounded to a double, and \<^verbatim>\<open>NaN\<close>
  when that prefix is empty. (Beyond 20 significant digits the standard lets an
  implementation approximate; V8, the engine of Node.js, rounds correctly, and so
  does the model.) White space is what \<^verbatim>\<open>StrWhiteSpaceChar\<close> has below 256: tab,
  line feed, vertical tab, form feed, carriage return, space and the no-break
  space U+00A0.
\<close>

definition isWhiteSpace :: "char \<Rightarrow> bool" where
  "isWhiteSpace c =
     (c \<in> set [CHR 0x09, CHR 0x0A, CHR 0x0B, CHR 0x0C, CHR 0x0D, CHR 0x20, CHR 0xA0])"

definition digitOf :: "nat \<Rightarrow> char \<Rightarrow> nat option" where
  "digitOf R c =
     (let n = (of_char c :: nat);
          v = (if 48 \<le> n \<and> n \<le> 57 then Some (n - 48)
               else if 97 \<le> n \<and> n \<le> 122 then Some (n - 87)
               else if 65 \<le> n \<and> n \<le> 90 then Some (n - 55)
               else None)
      in case v of None \<Rightarrow> None | Some d \<Rightarrow> if d < R then Some d else None)"

definition digitsValue :: "nat \<Rightarrow> string \<Rightarrow> nat" where
  "digitsValue R ds = foldl (\<lambda>acc c. acc * R + (case digitOf R c of None \<Rightarrow> 0 | Some d \<Rightarrow> d)) 0 ds"

definition parseDigits :: "nat \<Rightarrow> string \<Rightarrow> nat option" where
  "parseDigits R s =
     (let z = takeWhile (\<lambda>c. digitOf R c \<noteq> None) s
      in if z = [] then None else Some (digitsValue R z))"

fun stripSign :: "string \<Rightarrow> int \<times> string" where
  "stripSign [] = (1, [])"
| "stripSign (c # cs) =
     (if c = CHR ''-'' then (-1, cs) else if c = CHR ''+'' then (1, cs) else (1, c # cs))"

fun parseRadix :: "string \<Rightarrow> nat option" where
  "parseRadix (a # b # cs) =
     (if a = CHR ''0'' \<and> (b = CHR ''x'' \<or> b = CHR ''X'') then parseDigits 16 cs
      else parseDigits 10 (a # b # cs))"
| "parseRadix s = parseDigits 10 s"

definition parseInt :: "string \<Rightarrow> jsnum" where
  "parseInt s =
     (let (sign, rest) = stripSign (dropWhile isWhiteSpace s)
      in case parseRadix rest of None \<Rightarrow> NaN | Some n \<Rightarrow> toDouble (sign * int n))"

subsection \<open>\<^verbatim>\<open>ToString\<close> of a JSON value\<close>

text \<open>
  \<^verbatim>\<open>encodeURIComponent(x)\<close> and a template literal convert \<open>x\<close> to a string, and
  the conversion can throw \<^verbatim>\<open>TypeError\<close>. An object that \<^verbatim>\<open>JSON.parse\<close> built
  converts through \<^verbatim>\<open>Object.prototype.toString\<close>, unless it has a key
  \<^verbatim>\<open>toString\<close> of its own: the value under it is no function, the inherited
  \<^verbatim>\<open>valueOf\<close> returns the object, and the conversion throws. An array converts
  by joining its converted elements, so it throws when an element does. Every
  other value converts. (\<^verbatim>\<open>encodeURIComponent\<close> also throws on a lone surrogate;
  a string of the model has none.)
\<close>

fun convertible :: "json \<Rightarrow> bool" where
  "convertible (JArr xs) = list_all convertible xs"
| "convertible (JObj kvs) = (map_of kvs ''toString'' = None)"
| "convertible j = True"

subsection \<open>\<^verbatim>\<open>String.prototype.split(' ')\<close>\<close>

text \<open>
  The pieces between the single spaces of the string, empty pieces kept: one piece
  more than there are spaces, and \<^verbatim>\<open>''.split(' ')\<close> is \<^verbatim>\<open>['']\<close>.
\<close>

fun split_sp :: "string \<Rightarrow> string list" where
  "split_sp [] = [[]]"
| "split_sp (c # cs) =
     (if c = CHR '' '' then [] # split_sp cs
      else (case split_sp cs of [] \<Rightarrow> [[c]] | w # ws \<Rightarrow> (c # w) # ws))"

section \<open>The Authorization header (lines 180-193 and 286-298)\<close>

text \<open>
  \<^verbatim>\<open>
  let redashApiKey = null;
  if (authHeader) {
      const parts = authHeader.split(' ');
      if (parts.length === 2) { redashApiKey = parts[1]; }
      else if (authHeader.startsWith('Key ')) { redashApiKey = authHeader.substring(4); }
      else { redashApiKey = authHeader; }
  }
  \<close>
  The same text stands in the handler of \<^verbatim>\<open>GET /sse\<close> and in the handler of
  \<^verbatim>\<open>POST /messages\<close>; \<open>None\<close> is the initial \<^verbatim>\<open>null\<close>.
\<close>

definition parseAuthHeader :: "string option \<Rightarrow> string option" where
  "parseAuthHeader authHeader =
     (case authHeader of
        None \<Rightarrow> None
      | Some h \<Rightarrow>
          if h = [] then None
          else (let parts = split_sp h in
                if length parts = 2 then Some (parts ! 1)
                else if take 4 h = ''Key '' then Some (drop 4 h)
                else Some h))"

section \<open>The upstream engine, the clock and the process environment\<close>

text \<open>
  \<^verbatim>\<open>fetch\<close> either rejects (the network failed), or resolves to a response whose
  \<^verbatim>\<open>ok\<close> flag is false (then the program reads \<^verbatim>\<open>status\<close>, \<^verbatim>\<open>statusText\<close> and
  \<^verbatim>\<open>text()\<close>) or true (then the program reads \<^verbatim>\<open>json()\<close>, which rejects when the
  body is not JSON: \<open>None\<close>).
\<close>

datatype response =
    Rejected
  | HttpNotOk int string string
  | HttpOk "json option"

text \<open>
  One HTTP exchange: the milliseconds the clock \<^verbatim>\<open>Date.now()\<close> advances while the
  program awaits it, and what it yields. The clock is taken never to step back
  (durations are natural numbers), and a sleep to advance it by the delay of its
  timer at least.
\<close>

record exchange =
  dur :: nat
  resp :: response

text \<open>
  What one invocation meets: the clock at line 25, the exchange answering the
  submit call, the exchange answering the \<open>i\<close>-th poll call (from 0), how many
  milliseconds late the \<open>i\<close>-th sleep wakes, and the exchange answering the fetch
  of the result. The calls an invocation makes are fixed by the answers it got
  before, so every behaviour of an engine that answers by request is the
  behaviour against one such script.
\<close>

record upstream =
  started_at :: int
  submit_x :: exchange
  poll_x :: "nat \<Rightarrow> exchange"
  sleep_late :: "nat \<Rightarrow> nat"
  fetch_x :: exchange

text \<open>
  The upstream calls, as the program issues them: the query id, the
  \<^verbatim>\<open>Authorization\<close> header, \<^verbatim>\<open>parameters.org\<close> and \<^verbatim>\<open>max_age\<close> of the submit
  call; the job id and the header of a poll call; the result id and the header of
  the fetch call.
\<close>

datatype call =
    Submit string string json "jsnum option"
  | Poll json string
  | Fetch json string

text \<open>
  Every \<^verbatim>\<open>throw new Error(...)\<close> of the handler, by the place that throws it, with
  the values its message is built from (the timeout message reports
  \<^verbatim>\<open>Math.round(timeoutMs / 1000)\<close>; the error carries \<open>timeoutMs\<close>).
  \<open>FetchRejected\<close> and \<open>BodyNotJson\<close> are the rejections of \<^verbatim>\<open>fetch\<close> and
  \<^verbatim>\<open>json()\<close>, and \<open>TypeError\<close> is thrown where a job id, a result id or an
  engine's error value does not convert to a string; the handler catches none of
  them. \<open>InvalidParams\<close> is the refusal of arguments that do not fit the input
  schema.
\<close>

datatype error =
    MissingCredential
  | SubmitFailed int string string
  | UnexpectedUpstreamShape json
  | PollFailed json int string string
  | MissingResultReference json
  | UpstreamJobFailed json json
  | PollTimeout json jsnum
  | FetchFailed json int string string
  | FetchRejected
  | BodyNotJson
  | TypeError
  | InvalidParams

text \<open>
  The result of an invocation that ends: what it returns or throws, the clock when
  it does, and the upstream calls it made, in order. A returned value is the JSON
  value whose \<^verbatim>\<open>JSON.stringify\<close> is the text block. An invocation that never
  ends has no such result: the functions below give a \<open>run option\<close>, and \<open>None\<close>
  is the invocation that polls for ever.
\<close>

record run =
  outcome :: "error + json"
  finished :: int
  calls :: "call list"

record procenv =
  REDASH_KEY :: "string option"
  QUERY_TIMEOUT_SECONDS :: "string option"
  QUERY_POLL_MS :: "string option"
  QUERY_MAX_AGE_SECONDS :: "string option"
  REDASH_QUERY_ID :: "string option"

record timeoutConfig =
  timeoutSeconds :: "string option"
  pollMs :: "string option"
  maxAgeSeconds :: "string option"

text \<open>The argument object of \<^verbatim>\<open>getDataHandler\<close> (line 11).\<close>

record args = timeoutConfig +
  org :: json
  redashApiKey :: "string option"
  queryId :: "string option"

text \<open>\<^verbatim>\<open>ToString\<close>, as string concatenation and \<^verbatim>\<open>parseInt\<close> apply it.\<close>

fun toString :: "string option \<Rightarrow> string" where
  "toString None = ''undefined''"
| "toString (Some s) = s"

text \<open>
  \<^verbatim>\<open>setTimeout(r, ms)\<close> in Node.js: a delay that is \<^verbatim>\<open>NaN\<close>, below 1 or above
  \<open>2^31 - 1\<close> is set to 1. The timer fires no earlier than that.
\<close>

fun timerDelay :: "jsnum \<Rightarrow> nat" where
  "timerDelay (Num d) = (if d < 1 \<or> 2147483647 < d then 1 else nat d)"
| "timerDelay d = 1"

section \<open>\<^verbatim>\<open>pollJobUntilDone\<close> (lines 31-63)\<close>

text \<open>
  The loop, with its state explicit: \<open>i\<close> poll calls have been made, the clock
  reads \<open>now\<close>, and \<open>cs\<close> are the calls made so far. \<open>auth\<close> is the
  \<^verbatim>\<open>Authorization\<close> header and \<open>started\<close>, \<open>timeoutMs\<close>, \<open>pollDelayMs\<close> are the
  variables of the enclosing handler. \<open>Inr\<close> carries the returned
  \<^verbatim>\<open>query_result_id\<close>. The loop need not end (the budget can be \<^verbatim>\<open>Infinity\<close>),
  so the function is partial: \<open>None\<close> is the loop that runs for ever.

  The URL of the poll call is built first (line 33), so a job id that does not
  convert throws before any call is made; the messages of lines 40 and 49 convert
  the same id again, which then succeeds; the message of line 56 converts the
  engine's error value, and the message of line 62 the job id.
\<close>

partial_function (option) pollJobUntilDone ::
  "upstream \<Rightarrow> string \<Rightarrow> int \<Rightarrow> jsnum \<Rightarrow> jsnum \<Rightarrow> json \<Rightarrow> nat \<Rightarrow> int \<Rightarrow> call list \<Rightarrow> run option" where
  "pollJobUntilDone up auth started timeoutMs pollDelayMs jobId i now cs =
     (if js_lt (Num (now - started)) timeoutMs then
        (if \<not> convertible jobId
         then Some \<lparr>outcome = Inl TypeError, finished = now, calls = cs\<rparr>
         else
           (case resp (poll_x up i) of
              Rejected \<Rightarrow>
                Some \<lparr>outcome = Inl FetchRejected, finished = now + int (dur (poll_x up i)),
                      calls = cs @ [Poll jobId auth]\<rparr>
            | HttpNotOk st stt t \<Rightarrow>
                Some \<lparr>outcome = Inl (PollFailed jobId st stt t),
                      finished = now + int (dur (poll_x up i)), calls = cs @ [Poll jobId auth]\<rparr>
            | HttpOk None \<Rightarrow>
                Some \<lparr>outcome = Inl BodyNotJson, finished = now + int (dur (poll_x up i)),
                      calls = cs @ [Poll jobId auth]\<rparr>
            | HttpOk (Some jobJson) \<Rightarrow>
                (if getp (getp jobJson ''job'') ''status'' = JNum 3 then
                   (if \<not> truthy (or_j (getp (getp (getp jobJson ''job'') ''result'') ''query_result_id'')
                                      (getp (getp jobJson ''job'') ''query_result_id''))
                    then Some \<lparr>outcome = Inl (MissingResultReference jobId),
                               finished = now + int (dur (poll_x up i)),
                               calls = cs @ [Poll jobId auth]\<rparr>
                    else Some \<lparr>outcome = Inr (or_j (getp (getp (getp jobJson ''job'') ''result'')
                                                          ''query_result_id'')
                                                    (getp (getp jobJson ''job'') ''query_result_id'')),
                               finished = now + int (dur (poll_x up i)),
                               calls = cs @ [Poll jobId auth]\<rparr>)
                 else if getp (getp jobJson ''job'') ''status'' = JNum 4 then
                   (if \<not> convertible (or_j (getp (getp jobJson ''job'') ''error'')
                                           (JStr ''Unknown Redash job failure''))
                    then Some \<lparr>outcome = Inl TypeError, finished = now + int (dur (poll_x up i)),
                               calls = cs @ [Poll jobId auth]\<rparr>
                    else Some \<lparr>outcome = Inl (UpstreamJobFailed jobId
                                                (or_j (getp (getp jobJson ''job'') ''error'')
                                                      (JStr ''Unknown Redash job failure''))),
                               finished = now + int (dur (poll_x up i)),
                               calls = cs @ [Poll jobId auth]\<rparr>)
                 else pollJobUntilDone up auth started timeoutMs pollDelayMs jobId (Suc i)
                        (now + int (dur (poll_x up i)) + int (timerDelay pollDelayMs + sleep_late up i))
                        (cs @ [Poll jobId auth]))))
      else if \<not> convertible jobId
           then Some \<lparr>outcome = Inl TypeError, finished = now, calls = cs\<rparr>
           else Some \<lparr>outcome = Inl (PollTimeout jobId timeoutMs), finished = now, calls = cs\<rparr>)"

section \<open>\<^verbatim>\<open>getDataHandler\<close> (lines 11-117)\<close>

text \<open>
  The result id goes into the URL of the fetch call through
  \<^verbatim>\<open>encodeURIComponent\<close> (line 105): one that does not convert throws before the
  call is made.
\<close>

definition getDataHandler :: "procenv \<Rightarrow> upstream \<Rightarrow> args \<Rightarrow> run option" where
  "getDataHandler env up a =
     (let apiKey = or_s (redashApiKey a) (REDASH_KEY env) in
      if \<not> truthy_s apiKey
      then Some \<lparr>outcome = Inl MissingCredential, finished = started_at up, calls = []\<rparr>
      else
        (let auth = ''Key '' @ toString apiKey;
             timeoutMs = js_mul (parseInt (or_lit (or_s (timeoutSeconds a) (QUERY_TIMEOUT_SECONDS env)) ''60''))
                                (Num 1000);
             pollDelayMs = parseInt (or_lit (or_s (pollMs a) (QUERY_POLL_MS env)) ''2000'');
             maxAge = (if truthy_s (maxAgeSeconds a) then Some (parseInt (toString (maxAgeSeconds a)))
                       else if truthy_s (QUERY_MAX_AGE_SECONDS env)
                            then Some (parseInt (toString (QUERY_MAX_AGE_SECONDS env)))
                            else None);
             started = started_at up;
             queryIdToUse = or_lit (or_s (queryId a) (REDASH_QUERY_ID env)) ''35173'';
             cs0 = [Submit queryIdToUse auth (org a) maxAge];
             now0 = started + int (dur (submit_x up))
         in case resp (submit_x up) of
              Rejected \<Rightarrow> Some \<lparr>outcome = Inl FetchRejected, finished = now0, calls = cs0\<rparr>
            | HttpNotOk st stt t \<Rightarrow>
                Some \<lparr>outcome = Inl (SubmitFailed st stt t), finished = now0, calls = cs0\<rparr>
            | HttpOk None \<Rightarrow> Some \<lparr>outcome = Inl BodyNotJson, finished = now0, calls = cs0\<rparr>
            | HttpOk (Some json) \<Rightarrow>
                if truthy (getp json ''query_result'')
                then Some \<lparr>outcome = Inr json, finished = now0, calls = cs0\<rparr>
                else
                  (let jobId = or_j (or_j (getp (getp json ''job'') ''id'')
                                          (getp (getp json ''job'') ''job_id''))
                                    (getp json ''id'')
                   in if \<not> truthy jobId
                      then Some \<lparr>outcome = Inl (UnexpectedUpstreamShape json),
                                 finished = now0, calls = cs0\<rparr>
                      else
                        (case pollJobUntilDone up auth started timeoutMs pollDelayMs jobId 0 now0 cs0 of
                           None \<Rightarrow> None
                         | Some p \<Rightarrow>
                            (case outcome p of
                               Inl e \<Rightarrow> Some p
                             | Inr queryResultId \<Rightarrow>
                                 if \<not> convertible queryResultId
                                 then Some \<lparr>outcome = Inl TypeError, finished = finished p,
                                            calls = calls p\<rparr>
                                 else
                                   (let cs2 = calls p @ [Fetch queryResultId auth];
                                        now2 = finished p + int (dur (fetch_x up))
                                    in case resp (fetch_x up) of
                                         Rejected \<Rightarrow>
                                           Some \<lparr>outcome = Inl FetchRejected, finished = now2,
                                                 calls = cs2\<rparr>
                                       | HttpNotOk st stt t \<Rightarrow>
                                           Some \<lparr>outcome = Inl (FetchFailed queryResultId st stt t),
                                                 finished = now2, calls = cs2\<rparr>
                                       | HttpOk None \<Rightarrow>
                                           Some \<lparr>outcome = Inl BodyNotJson, finished = now2,
                                                 calls = cs2\<rparr>
                                       | HttpOk (Some qJson) \<Rightarrow>
                                           Some \<lparr>outcome = Inr qJson, finished = now2,
                                                 calls = cs2\<rparr>))))))"

section \<open>The session maps and the HTTP handlers (lines 133-328)\<close>

text \<open>
  The five \<^verbatim>\<open>Map\<close>s of the HTTP mode, keyed by session id. The servers and the
  transports are objects of the protocol library; only which sessions have one
  matters here. The function \<^verbatim>\<open>createServerForSession\<close> (lines 140-164) is never
  called and is left out.
\<close>

record server =
  sessionServers :: "string set"
  sessionTransports :: "string set"
  sessionApiKeys :: "string \<rightharpoonup> string"
  sessionTimeouts :: "string \<rightharpoonup> timeoutConfig"
  sessionQueryIds :: "string \<rightharpoonup> string"

text \<open>The request headers the handlers read; Node.js gives their names in lower case.\<close>

type_synonym headers = "string \<rightharpoonup> string"

definition authHeaderOf :: "headers \<Rightarrow> string option" where
  "authHeaderOf hs = or_s (hs ''authorization'') (hs ''Authorization'')"

definition timeoutConfigOf :: "headers \<Rightarrow> timeoutConfig" where
  "timeoutConfigOf hs =
     \<lparr>timeoutSeconds = or_s (hs ''x-query-timeout-seconds'') (hs ''x-timeout-seconds''),
      pollMs = or_s (hs ''x-query-poll-ms'') (hs ''x-poll-ms''),
      maxAgeSeconds = or_s (hs ''x-query-max-age-seconds'') (hs ''x-max-age-seconds'')\<rparr>"

definition queryIdOf :: "headers \<Rightarrow> string option" where
  "queryIdOf hs = or_s (hs ''x-query-id'') (hs ''x-redash-query-id'')"

text \<open>\<^verbatim>\<open>if (v) { m.set(k, v); }\<close>\<close>

definition set_if :: "(string \<rightharpoonup> string) \<Rightarrow> string \<Rightarrow> string option \<Rightarrow> (string \<rightharpoonup> string)" where
  "set_if m k v = (case v of None \<Rightarrow> m | Some s \<Rightarrow> if s \<noteq> [] then m(k \<mapsto> s) else m)"

text \<open>
  \<^verbatim>\<open>if (c.timeoutSeconds || c.pollMs || c.maxAgeSeconds) { sessionTimeouts.set(k, c); }\<close>:
  the object built from the headers of this request is stored as it is.
\<close>

definition set_config ::
  "(string \<rightharpoonup> timeoutConfig) \<Rightarrow> string \<Rightarrow> timeoutConfig \<Rightarrow> (string \<rightharpoonup> timeoutConfig)" where
  "set_config m k c =
     (if truthy_s (timeoutSeconds c) \<or> truthy_s (pollMs c) \<or> truthy_s (maxAgeSeconds c)
      then m(k \<mapsto> c) else m)"

text \<open>
  \<^verbatim>\<open>GET /sse\<close> (lines 178-276): \<open>sessionId\<close> is the id the new transport was given.
\<close>

definition sseConnect :: "procenv \<Rightarrow> string \<Rightarrow> headers \<Rightarrow> server \<Rightarrow> server" where
  "sseConnect env sessionId hs st =
     (let parsed = parseAuthHeader (authHeaderOf hs);
          redashApiKey = (if \<not> truthy_s parsed then REDASH_KEY env else parsed)
      in st\<lparr>sessionApiKeys := set_if (sessionApiKeys st) sessionId redashApiKey,
            sessionTimeouts := set_config (sessionTimeouts st) sessionId (timeoutConfigOf hs),
            sessionQueryIds := set_if (sessionQueryIds st) sessionId (queryIdOf hs),
            sessionServers := insert sessionId (sessionServers st),
            sessionTransports := insert sessionId (sessionTransports st)\<rparr>)"

text \<open>The \<^verbatim>\<open>close\<close> handler of a session's connection (lines 261-271).\<close>

definition closeSession :: "string \<Rightarrow> server \<Rightarrow> server" where
  "closeSession sessionId st =
     st\<lparr>sessionApiKeys := (sessionApiKeys st)(sessionId := None),
        sessionTimeouts := (sessionTimeouts st)(sessionId := None),
        sessionQueryIds := (sessionQueryIds st)(sessionId := None),
        sessionServers := sessionServers st - {sessionId},
        sessionTransports := sessionTransports st - {sessionId}\<rparr>"

text \<open>
  \<^verbatim>\<open>POST /messages\<close> (lines 279-328), up to the point where the message is handed
  to the transport: \<open>None\<close> is the answer 400 for a session that has no transport
  or no server; otherwise the session maps after the updates from the headers.
\<close>

definition postMessages :: "string \<Rightarrow> headers \<Rightarrow> server \<Rightarrow> server option" where
  "postMessages sessionId hs st =
     (if sessionId \<in> sessionTransports st \<and> sessionId \<in> sessionServers st
      then Some (st\<lparr>sessionApiKeys := set_if (sessionApiKeys st) sessionId
                                          (parseAuthHeader (authHeaderOf hs)),
                    sessionTimeouts := set_config (sessionTimeouts st) sessionId (timeoutConfigOf hs),
                    sessionQueryIds := set_if (sessionQueryIds st) sessionId (queryIdOf hs)\<rparr>)
      else None)"

text \<open>The tool callback registered for a session (lines 239-253).\<close>

definition getDataTool :: "procenv \<Rightarrow> upstream \<Rightarrow> server \<Rightarrow> string \<Rightarrow> json \<Rightarrow> run option" where
  "getDataTool env up st sessionId org_arg =
     (let apiKey = or_s (sessionApiKeys st sessionId) (REDASH_KEY env);
          timeoutConfig = (case sessionTimeouts st sessionId of
                             None \<Rightarrow> \<lparr>timeoutSeconds = None, pollMs = None, maxAgeSeconds = None\<rparr>
                           | Some c \<Rightarrow> c);
          queryId = sessionQueryIds st sessionId
      in getDataHandler env up
           \<lparr>timeoutSeconds = timeoutSeconds timeoutConfig,
            pollMs = pollMs timeoutConfig,
            maxAgeSeconds = maxAgeSeconds timeoutConfig,
            org = org_arg,
            redashApiKey = apiKey,
            queryId = queryId\<rparr>)"

subsection \<open>The input schema and the call of the tool\<close>

text \<open>
  \<^verbatim>\<open>inputSchema: { org: z.string() }\<close> (lines 237 and 356): the arguments fit when
  their \<^verbatim>\<open>org\<close> is a string, of any length. The protocol library checks the
  arguments of a call against the schema and runs the callback only when they
  fit; it hands the callback the arguments the schema names.
\<close>

definition inputSchema :: "json \<Rightarrow> bool" where
  "inputSchema arguments = (case getp arguments ''org'' of JStr s \<Rightarrow> True | _ \<Rightarrow> False)"

definition callTool :: "(json \<Rightarrow> run option) \<Rightarrow> upstream \<Rightarrow> json \<Rightarrow> run option" where
  "callTool callback up arguments =
     (if inputSchema arguments then callback (getp arguments ''org'')
      else Some \<lparr>outcome = Inl InvalidParams, finished = started_at up, calls = []\<rparr>)"

text \<open>
  A call of \<^verbatim>\<open>getData\<close> in the stdio mode (lines 351-359): the callback is
  \<^verbatim>\<open>getDataHandler\<close> itself, so the handler sees \<^verbatim>\<open>org\<close> and nothing else.
\<close>

definition stdioGetData :: "procenv \<Rightarrow> upstream \<Rightarrow> json \<Rightarrow> run option" where
  "stdioGetData env up arguments =
     callTool (\<lambda>org_arg. getDataHandler env up
                 \<lparr>timeoutSeconds = None, pollMs = None, maxAgeSeconds = None,
                  org = org_arg, redashApiKey = None, queryId = None\<rparr>) up arguments"

text \<open>
  A call of \<^verbatim>\<open>getData\<close> in the HTTP mode: one \<^verbatim>\<open>POST /messages\<close> carrying the
  headers \<open>hs\<close> and the call. \<open>None\<close> is the answer 400; otherwise the session
  maps after the request, and the invocation's result if it ends.
\<close>

definition httpGetData ::
  "procenv \<Rightarrow> upstream \<Rightarrow> server \<Rightarrow> string \<Rightarrow> headers \<Rightarrow> json
     \<Rightarrow> (server \<times> run option) option" where
  "httpGetData env up st sessionId hs arguments =
     (case postMessages sessionId hs st of
        None \<Rightarrow> None
      | Some st' \<Rightarrow> Some (st', callTool (getDataTool env up st' sessionId) up arguments))"

section \<open>What a run shows\<close>


fun isPoll :: "call \<Rightarrow> bool" where
  "isPoll (Poll j a) = True"
| "isPoll c = False"

fun isFetch :: "call \<Rightarrow> bool" where
  "isFetch (Fetch r a) = True"
| "isFetch c = False"


text \<open>
  The variables of the handler that the loop reads, as functions of the
  environment and the arguments (lines 19 and 20), and the job id it takes from
  the submit response (line 96).
\<close>

definition timeoutMsOf :: "procenv \<Rightarrow> args \<Rightarrow> jsnum" where
  "timeoutMsOf env a =
     js_mul (parseInt (or_lit (or_s (timeoutSeconds a) (QUERY_TIMEOUT_SECONDS env)) ''60'')) (Num 1000)"

definition pollDelayMsOf :: "procenv \<Rightarrow> args \<Rightarrow> jsnum" where
  "pollDelayMsOf env a = parseInt (or_lit (or_s (pollMs a) (QUERY_POLL_MS env)) ''2000'')"

definition jobIdOf :: "json \<Rightarrow> json" where
  "jobIdOf json = or_j (or_j (getp (getp json ''job'') ''id'') (getp (getp json ''job'') ''job_id''))
                       (getp json ''id'')"

text \<open>The \<^verbatim>\<open>max_age\<close> of the submit call (lines 21-23 and 68) and the call itself.\<close>

definition maxAgeOf :: "procenv \<Rightarrow> args \<Rightarrow> jsnum option" where
  "maxAgeOf env a =
     (if truthy_s (maxAgeSeconds a) then Some (parseInt (toString (maxAgeSeconds a)))
      else if truthy_s (QUERY_MAX_AGE_SECONDS env)
           then Some (parseInt (toString (QUERY_MAX_AGE_SECONDS env)))
           else None)"

definition submitCall :: "procenv \<Rightarrow> args \<Rightarrow> string \<Rightarrow> call" where
  "submitCall env a k =
     Submit (or_lit (or_s (queryId a) (REDASH_QUERY_ID env)) ''35173'') (''Key '' @ k) (org a)
            (maxAgeOf env a)"

text \<open>
  A poll answer after which the loop sleeps and goes on: a response that is ok,
  with a JSON body whose \<^verbatim>\<open>job.status\<close> is neither 3 nor 4.
\<close>

definition pending :: "response \<Rightarrow> bool" where
  "pending r =
     (case r of
        HttpOk (Some jobJson) \<Rightarrow>
          getp (getp jobJson ''job'') ''status'' \<noteq> JNum 3 \<and> getp (getp jobJson ''job'') ''status'' \<noteq> JNum 4
      | _ \<Rightarrow> False)"

text \<open>
  The loop goes round once more from the state \<open>(i, now)\<close>: the budget is not
  used up, the job id converts, and the answer to the poll is pending.
\<close>

definition continues :: "upstream \<Rightarrow> int \<Rightarrow> jsnum \<Rightarrow> json \<Rightarrow> nat \<Rightarrow> int \<Rightarrow> bool" where
  "continues up started timeoutMs jobId i now =
     (js_lt (Num (now - started)) timeoutMs \<and> convertible jobId \<and> pending (resp (poll_x up i)))"

text \<open>
  The clock at the \<open>n\<close>-th evaluation of the loop condition (from 0), when the
  loop started at \<open>now0\<close> and the polls before were pending: each iteration adds
  the duration of its poll exchange and of its sleep.
\<close>

fun clockAt :: "upstream \<Rightarrow> jsnum \<Rightarrow> int \<Rightarrow> nat \<Rightarrow> int" where
  "clockAt up pollDelayMs now0 0 = now0"
| "clockAt up pollDelayMs now0 (Suc n) =
     clockAt up pollDelayMs now0 n + int (dur (poll_x up n))
       + int (timerDelay pollDelayMs + sleep_late up n)"

text \<open>
  The milliseconds of a finite budget left when the clock reads \<open>now\<close>; none when
  the budget is \<^verbatim>\<open>NaN\<close> or \<^verbatim>\<open>-Infinity\<close>. (For the budget \<^verbatim>\<open>Infinity\<close> the value
  means nothing.)
\<close>

fun budgetLeft :: "jsnum \<Rightarrow> int \<Rightarrow> int \<Rightarrow> nat" where
  "budgetLeft (Num t) started now = nat (t - (now - started))"
| "budgetLeft t started now = 0"

text \<open>
  The latest the loop can end under a finite budget, when it is entered at \<open>now\<close>,
  no poll exchange takes more than \<open>D\<close> ms and no sleep more than \<open>S\<close> ms: with the
  budget \<^verbatim>\<open>NaN\<close> or \<^verbatim>\<open>-Infinity\<close> it ends at once; otherwise its last iteration
  starts before the deadline \<open>started + t\<close>, and lasts one exchange and one sleep
  at most.
\<close>

fun latestEnd :: "jsnum \<Rightarrow> int \<Rightarrow> int \<Rightarrow> nat \<Rightarrow> nat \<Rightarrow> int" where
  "latestEnd (Num t) started now D S = max now (started + t - 1 + int D + int S)"
| "latestEnd t started now D S = now"

subsection \<open>Concrete inputs\<close>

text \<open>
  A process environment with a default credential and one without; a server with
  the live session \<^verbatim>\<open>s1\<close>, whose stored credential is \<^verbatim>\<open>sesskey\<close> and whose
  stored config has a timeout of 120 s and a poll interval of 3000 ms; the same
  server with no credential stored for \<^verbatim>\<open>s1\<close>.
\<close>

definition example_env :: procenv where
  "example_env = \<lparr>REDASH_KEY = Some ''envkey'', QUERY_TIMEOUT_SECONDS = None, QUERY_POLL_MS = None,
                  QUERY_MAX_AGE_SECONDS = None, REDASH_QUERY_ID = None\<rparr>"

definition example_env_no_key :: procenv where
  "example_env_no_key = example_env\<lparr>REDASH_KEY := None\<rparr>"

definition example_server :: server where
  "example_server =
     \<lparr>sessionServers = {''s1''}, sessionTransports = {''s1''},
      sessionApiKeys = [''s1'' \<mapsto> ''sesskey''],
      sessionTimeouts = [''s1'' \<mapsto> \<lparr>timeoutSeconds = Some ''120'', pollMs = Some ''3000'',
                                      maxAgeSeconds = None\<rparr>],
      sessionQueryIds = Map.empty\<rparr>"

definition example_server_no_key :: server where
  "example_server_no_key = example_server\<lparr>sessionApiKeys := Map.empty\<rparr>"

text \<open>Request headers: none; a credential; only a poll interval.\<close>

definition no_headers :: headers where
  "no_headers = Map.empty"

definition auth_headers :: headers where
  "auth_headers = [''authorization'' \<mapsto> ''Key reqkey'']"

definition poll_only_headers :: headers where
  "poll_only_headers = [''x-query-poll-ms'' \<mapsto> ''500'']"

text \<open>Arguments of a call: an organisation, the empty string, and no \<^verbatim>\<open>org\<close> at all.\<close>

definition example_arguments :: json where
  "example_arguments = JObj [(''org'', JStr ''acme.com'')]"

definition empty_org_arguments :: json where
  "empty_org_arguments = JObj [(''org'', JStr [])]"

definition no_org_arguments :: json where
  "no_org_arguments = JObj []"

text \<open>An engine that answers the submit call with a result at once, after 5 ms.\<close>

definition cached_upstream :: upstream where
  "cached_upstream =
     \<lparr>started_at = 0,
      submit_x = \<lparr>dur = 5, resp = HttpOk (Some (JObj [(''query_result'', JObj [(''id'', JNum 7)])]))\<rparr>,
      poll_x = (\<lambda>i. \<lparr>dur = 0, resp = Rejected\<rparr>),
      sleep_late = (\<lambda>i. 0),
      fetch_x = \<lparr>dur = 0, resp = Rejected\<rparr>\<rparr>"

text \<open>
  An engine that needs three polls: the submit call yields the job \<^verbatim>\<open>42\<close>, the
  polls yield status 1, status 2, and status 3 with the result id \<^verbatim>\<open>99\<close>, and
  the fetch yields \<^verbatim>\<open>{"rows":[]}\<close>. Every exchange takes 20 ms and the sleeps are
  exact.
\<close>

definition scenario_upstream :: upstream where
  "scenario_upstream =
     \<lparr>started_at = 1000,
      submit_x = \<lparr>dur = 20, resp = HttpOk (Some (JObj [(''job'', JObj [(''id'', JStr ''42'')])]))\<rparr>,
      poll_x = (\<lambda>i. \<lparr>dur = 20, resp = HttpOk (Some (JObj [(''job'', JObj
                  (if i = 0 then [(''status'', JNum 1)]
                   else if i = 1 then [(''status'', JNum 2)]
                   else [(''status'', JNum 3), (''query_result_id'', JStr ''99'')]))]))\<rparr>),
      sleep_late = (\<lambda>i. 0),
      fetch_x = \<lparr>dur = 20, resp = HttpOk (Some (JObj [(''rows'', JArr [])]))\<rparr>\<rparr>"

text \<open>
  An engine whose job stays queued and whose poll exchanges take 5 s each, called
  with a timeout of 1 s and a poll interval of 100 ms.
\<close>

definition slow_upstream :: upstream where
  "slow_upstream =
     \<lparr>started_at = 0,
      submit_x = \<lparr>dur = 0, resp = HttpOk (Some (JObj [(''job'', JObj [(''id'', JStr ''42'')])]))\<rparr>,
      poll_x = (\<lambda>i. \<lparr>dur = 5000, resp = HttpOk (Some (JObj [(''job'', JObj [(''status'', JNum 1)])]))\<rparr>),
      sleep_late = (\<lambda>i. 0),
      fetch_x = \<lparr>dur = 0, resp = Rejected\<rparr>\<rparr>"

definition example_args :: args where
  "example_args = \<lparr>timeoutSeconds = None, pollMs = None, maxAgeSeconds = None,
                   org = JStr ''acme.com'', redashApiKey = Some ''k'', queryId = None\<rparr>"

definition short_timeout_args :: args where
  "short_timeout_args = example_args\<lparr>timeoutSeconds := Some ''1'', pollMs := Some ''100''\<rparr>"

definition bad_timeout_args :: args where
  "bad_timeout_args = example_args\<lparr>timeoutSeconds := Some ''soon''\<rparr>"

text \<open>
  An engine whose job is done at the first poll with the result id 0, and one
  whose job is done at the second poll with the result id 0 in one shape and the
  empty string in the other.
\<close>

definition zero_id_upstream :: upstream where
  "zero_id_upstream =
     scenario_upstream\<lparr>poll_x := (\<lambda>i. \<lparr>dur = 20, resp = HttpOk (Some (JObj [(''job'', JObj
        [(''status'', JNum 3), (''query_result_id'', JNum 0)])]))\<rparr>)\<rparr>"

definition empty_id_upstream :: upstream where
  "empty_id_upstream =
     scenario_upstream\<lparr>poll_x := (\<lambda>i. \<lparr>dur = 20, resp = HttpOk (Some (JObj [(''job'', JObj
        (if i = 0 then [(''status'', JNum 2)]
         else [(''status'', JNum 3), (''result'', JObj [(''query_result_id'', JStr [])]),
               (''query_result_id'', JNum 0)]))]))\<rparr>)\<rparr>"

text \<open>
  An engine whose submit response holds, as the job id, an object with a key
  \<^verbatim>\<open>toString\<close> of its own: \<^verbatim>\<open>{"job":{"id":{"toString":1}}}\<close>.
\<close>

definition odd_id_upstream :: upstream where
  "odd_id_upstream =
     scenario_upstream\<lparr>submit_x := \<lparr>dur = 20, resp = HttpOk (Some (JObj [(''job'', JObj
        [(''id'', JObj [(''toString'', JNum 1)])])]))\<rparr>\<rparr>"

text \<open>
  An engine whose job stays queued for ever, and arguments whose timeout is a text
  of 309 digits.
\<close>

definition queued_upstream :: upstream where
  "queued_upstream =
     scenario_upstream\<lparr>poll_x := (\<lambda>i. \<lparr>dur = 20, resp = HttpOk (Some (JObj [(''job'', JObj
        [(''status'', JNum 1)])]))\<rparr>)\<rparr>"

definition huge_timeout_args :: args where
  "huge_timeout_args = example_args\<lparr>timeoutSeconds := Some
     ''999999999999999999999999999999999999999999999999999999999999999999999999999999999999999999999999999999999999999999999999999999999999999999999999999999999999999999999999999999999999999999999999999999999999999999999999999999999999999999999999999999999999999999999999999999999999999999999999999999999999999999999''\<rparr>"

section \<open>The forms of the Authorization header\<close>

lemma length_split_sp: "length (split_sp s) = Suc (count_list s (CHR '' ''))"
  by (induction s) (auto split: list.splits)

lemma split_sp_no_space: "CHR '' '' \<notin> set s \<Longrightarrow> split_sp s = [s]"
  by (induction s) (auto split: list.splits)

lemma split_sp_append: "CHR '' '' \<notin> set a \<Longrightarrow> split_sp (a @ CHR '' '' # b) = a # split_sp b"
  by (induction a) (auto split: list.splits)

lemma split_sp_single:
  assumes "length (split_sp s) = 1" shows "split_sp s = [s]"
proof -
  from assms have "count_list s (CHR '' '') = 0" by (simp add: length_split_sp)
  then have "CHR '' '' \<notin> set s" by (simp add: count_list_0_iff)
  then show ?thesis by (rule split_sp_no_space)
qed

lemma parse_key_prefix: "parseAuthHeader (Some (''Key '' @ Y)) = Some Y"
proof -
  have sp: "split_sp (''Key '' @ Y) = ''Key'' # split_sp Y"
    using split_sp_append [of "''Key''" Y] by simp
  show ?thesis
  proof (cases "length (split_sp Y) = 1")
    case True
    then have "split_sp Y = [Y]" by (rule split_sp_single)
    with sp show ?thesis by (simp add: parseAuthHeader_def)
  next
    case False
    with sp show ?thesis by (simp add: parseAuthHeader_def)
  qed
qed

lemma parse_scheme:
  assumes "CHR '' '' \<notin> set X" "CHR '' '' \<notin> set scheme"
  shows "parseAuthHeader (Some (scheme @ '' '' @ X)) = Some X"
proof -
  have "split_sp (scheme @ '' '' @ X) = [scheme, X]"
    using split_sp_append [of scheme X] assms by (simp add: split_sp_no_space)
  then show ?thesis by (simp add: parseAuthHeader_def)
qed

lemma parse_bare:
  assumes "X \<noteq> []" "CHR '' '' \<notin> set X"
  shows "parseAuthHeader (Some X) = Some X"
proof -
  have "take 4 X \<noteq> ''Key ''"
  proof
    assume "take 4 X = ''Key ''"
    then have "CHR '' '' \<in> set (take 4 X)" by simp
    then have "CHR '' '' \<in> set X" by (rule in_set_takeD)
    with assms show False by simp
  qed
  with assms show ?thesis by (simp add: parseAuthHeader_def split_sp_no_space)
qed

text \<open>
  C6, as amended. For every non-empty credential \<open>X\<close> that holds no space, the three
  forms give the same credential \<open>X\<close>: a scheme (any text without a space), a space
  and \<open>X\<close>; \<^verbatim>\<open>Key\<close>, a space and \<open>X\<close>; and \<open>X\<close> alone. The form with the prefix
  \<^verbatim>\<open>Key\<close> gives the text after the prefix for every text \<open>Y\<close>, spaces or not.
\<close>

theorem auth_forms_agree:
  assumes "X \<noteq> []" and "CHR '' '' \<notin> set X" and "CHR '' '' \<notin> set scheme"
  shows "parseAuthHeader (Some (scheme @ '' '' @ X)) = Some X
       \<and> parseAuthHeader (Some (''Key '' @ X)) = Some X
       \<and> parseAuthHeader (Some X) = Some X
       \<and> parseAuthHeader (Some (''Key '' @ Y)) = Some Y"
  using assms by (simp only: parse_scheme parse_key_prefix parse_bare simp_thms)

theorem auth_forms_agree_witness:
  "parseAuthHeader (Some ''Bearer abc123'') = Some ''abc123''
   \<and> parseAuthHeader (Some ''Key abc123'') = Some ''abc123''
   \<and> parseAuthHeader (Some ''abc123'') = Some ''abc123''
   \<and> parseAuthHeader (Some ''Key two words'') = Some ''two words''"
  using auth_forms_agree [of "''abc123''" "''Bearer''" "''two words''"] by simp

text \<open>
  C6 as stated fails for a credential with a space in it: for \<^verbatim>\<open>a b\<close> the bare
  form has two pieces and yields the second, \<^verbatim>\<open>b\<close>, and \<^verbatim>\<open>Bearer a b\<close> has three
  pieces, does not start with \<^verbatim>\<open>Key\<close> and is kept whole.
\<close>

theorem auth_forms_counterexample:
  "parseAuthHeader (Some (''Bearer '' @ ''a b'')) = Some ''Bearer a b''
   \<and> parseAuthHeader (Some (''Key '' @ ''a b'')) = Some ''a b''
   \<and> parseAuthHeader (Some ''a b'') = Some ''b''
   \<and> \<not> (parseAuthHeader (Some (''Bearer '' @ ''a b'')) = Some ''a b''
          \<and> parseAuthHeader (Some (''Key '' @ ''a b'')) = Some ''a b''
          \<and> parseAuthHeader (Some ''a b'') = Some ''a b'')"
  by (simp add: parseAuthHeader_def)

section \<open>The poll loop\<close>

lemma poll_timeout:
  "\<not> js_lt (Num (now - started)) timeoutMs \<Longrightarrow> convertible jobId \<Longrightarrow>
   pollJobUntilDone up auth started timeoutMs pollDelayMs jobId i now cs
     = Some \<lparr>outcome = Inl (PollTimeout jobId timeoutMs), finished = now, calls = cs\<rparr>"
  by (subst pollJobUntilDone.simps) simp

lemma poll_not_convertible:
  "\<not> convertible jobId \<Longrightarrow>
   pollJobUntilDone up auth started timeoutMs pollDelayMs jobId i now cs
     = Some \<lparr>outcome = Inl TypeError, finished = now, calls = cs\<rparr>"
  by (subst pollJobUntilDone.simps) simp

lemma poll_pending:
  "continues up started timeoutMs jobId i now \<Longrightarrow>
   pollJobUntilDone up auth started timeoutMs pollDelayMs jobId i now cs
     = pollJobUntilDone up auth started timeoutMs pollDelayMs jobId (Suc i)
         (now + int (dur (poll_x up i)) + int (timerDelay pollDelayMs + sleep_late up i))
         (cs @ [Poll jobId auth])"
  by (subst pollJobUntilDone.simps)
     (auto simp: continues_def pending_def split: response.splits option.splits)

lemma poll_done:
  "js_lt (Num (now - started)) timeoutMs \<Longrightarrow> convertible jobId \<Longrightarrow>
   resp (poll_x up i) = HttpOk (Some jobJson) \<Longrightarrow>
   getp (getp jobJson ''job'') ''status'' = JNum 3 \<Longrightarrow>
   qrid = or_j (getp (getp (getp jobJson ''job'') ''result'') ''query_result_id'')
               (getp (getp jobJson ''job'') ''query_result_id'') \<Longrightarrow>
   pollJobUntilDone up auth started timeoutMs pollDelayMs jobId i now cs
     = Some \<lparr>outcome = (if \<not> truthy qrid then Inl (MissingResultReference jobId) else Inr qrid),
             finished = now + int (dur (poll_x up i)), calls = cs @ [Poll jobId auth]\<rparr>"
  by (subst pollJobUntilDone.simps) simp

text \<open>What a state in which the loop stops gives.\<close>

lemma poll_stops:
  assumes "\<not> continues up started timeoutMs jobId i now"
  shows "\<exists>r. pollJobUntilDone up auth started timeoutMs pollDelayMs jobId i now cs = Some r
           \<and> outcome r \<noteq> Inl MissingCredential
           \<and> ((calls r = cs \<and> finished r = now)
               \<or> (js_lt (Num (now - started)) timeoutMs
                   \<and> calls r = cs @ [Poll jobId auth] \<and> finished r = now + int (dur (poll_x up i))))"
  using assms
  by (subst pollJobUntilDone.simps)
     (auto simp: continues_def pending_def split: response.splits option.splits)

lemma poll_run_induct [consumes 1, case_names stop step]:
  fixes up :: upstream
  assumes run: "pollJobUntilDone up auth started timeoutMs pollDelayMs jobId i now cs = Some r"
    and stop: "\<And>i now cs. \<not> continues up started timeoutMs jobId i now \<Longrightarrow>
                 pollJobUntilDone up auth started timeoutMs pollDelayMs jobId i now cs = Some r \<Longrightarrow>
                 P i now cs"
    and step: "\<And>i now cs. continues up started timeoutMs jobId i now \<Longrightarrow>
                 pollJobUntilDone up auth started timeoutMs pollDelayMs jobId (Suc i)
                   (now + int (dur (poll_x up i)) + int (timerDelay pollDelayMs + sleep_late up i))
                   (cs @ [Poll jobId auth]) = Some r \<Longrightarrow>
                 P (Suc i) (now + int (dur (poll_x up i)) + int (timerDelay pollDelayMs + sleep_late up i))
                   (cs @ [Poll jobId auth]) \<Longrightarrow>
                 P i now cs"
  shows "P i now cs"
proof -
  define Q where "Q = (\<lambda>(up' :: upstream) auth' started' timeoutMs' pollDelayMs' jobId' i now cs y.
      up' = up \<and> auth' = auth \<and> started' = started \<and> timeoutMs' = timeoutMs
      \<and> pollDelayMs' = pollDelayMs \<and> jobId' = jobId \<and> y = r
      \<longrightarrow> P i now cs \<and> pollJobUntilDone up auth started timeoutMs pollDelayMs jobId i now cs = Some r)"
  have "Q up auth started timeoutMs pollDelayMs jobId i now cs r"
  proof (rule pollJobUntilDone.raw_induct [where P = Q, OF _ run])
    fix f and up' :: upstream and auth' started' timeoutMs' pollDelayMs' jobId' i now cs y
    let ?now' = "now + int (dur (poll_x up' i)) + int (timerDelay pollDelayMs' + sleep_late up' i)"
    assume IH: "\<And>up auth started timeoutMs pollDelayMs jobId i now cs y.
        f up auth started timeoutMs pollDelayMs jobId i now cs = Some y \<Longrightarrow>
        Q up auth started timeoutMs pollDelayMs jobId i now cs y"
    assume body: "(if js_lt (Num (now - started')) timeoutMs' then
        (if \<not> convertible jobId'
         then Some \<lparr>outcome = Inl TypeError, finished = now, calls = cs\<rparr>
         else
           (case resp (poll_x up' i) of
              Rejected \<Rightarrow>
                Some \<lparr>outcome = Inl FetchRejected, finished = now + int (dur (poll_x up' i)),
                      calls = cs @ [Poll jobId' auth']\<rparr>
            | HttpNotOk st stt t \<Rightarrow>
                Some \<lparr>outcome = Inl (PollFailed jobId' st stt t),
                      finished = now + int (dur (poll_x up' i)), calls = cs @ [Poll jobId' auth']\<rparr>
            | HttpOk None \<Rightarrow>
                Some \<lparr>outcome = Inl BodyNotJson, finished = now + int (dur (poll_x up' i)),
                      calls = cs @ [Poll jobId' auth']\<rparr>
            | HttpOk (Some jobJson) \<Rightarrow>
                (if getp (getp jobJson ''job'') ''status'' = JNum 3 then
                   (if \<not> truthy (or_j (getp (getp (getp jobJson ''job'') ''result'') ''query_result_id'')
                                      (getp (getp jobJson ''job'') ''query_result_id''))
                    then Some \<lparr>outcome = Inl (MissingResultReference jobId'),
                               finished = now + int (dur (poll_x up' i)),
                               calls = cs @ [Poll jobId' auth']\<rparr>
                    else Some \<lparr>outcome = Inr (or_j (getp (getp (getp jobJson ''job'') ''result'')
                                                          ''query_result_id'')
                                                    (getp (getp jobJson ''job'') ''query_result_id'')),
                               finished = now + int (dur (poll_x up' i)),
                               calls = cs @ [Poll jobId' auth']\<rparr>)
                 else if getp (getp jobJson ''job'') ''status'' = JNum 4 then
                   (if \<not> convertible (or_j (getp (getp jobJson ''job'') ''error'')
                                           (JStr ''Unknown Redash job failure''))
                    then Some \<lparr>outcome = Inl TypeError, finished = now + int (dur (poll_x up' i)),
                               calls = cs @ [Poll jobId' auth']\<rparr>
                    else Some \<lparr>outcome = Inl (UpstreamJobFailed jobId'
                                                (or_j (getp (getp jobJson ''job'') ''error'')
                                                      (JStr ''Unknown Redash job failure''))),
                               finished = now + int (dur (poll_x up' i)),
                               calls = cs @ [Poll jobId' auth']\<rparr>)
                 else f up' auth' started' timeoutMs' pollDelayMs' jobId' (Suc i) ?now'
                        (cs @ [Poll jobId' auth']))))
      else if \<not> convertible jobId'
           then Some \<lparr>outcome = Inl TypeError, finished = now, calls = cs\<rparr>
           else Some \<lparr>outcome = Inl (PollTimeout jobId' timeoutMs'), finished = now, calls = cs\<rparr>)
      = Some y"
    show "Q up' auth' started' timeoutMs' pollDelayMs' jobId' i now cs y"
      unfolding Q_def
    proof (intro impI, elim conjE)
      assume eqs: "up' = up" "auth' = auth" "started' = started" "timeoutMs' = timeoutMs"
        "pollDelayMs' = pollDelayMs" "jobId' = jobId" "y = r"
      show "P i now cs \<and> pollJobUntilDone up auth started timeoutMs pollDelayMs jobId i now cs = Some r"
      proof (cases "continues up started timeoutMs jobId i now")
        case True
        then have "f up auth started timeoutMs pollDelayMs jobId (Suc i)
                     (now + int (dur (poll_x up i)) + int (timerDelay pollDelayMs + sleep_late up i))
                     (cs @ [Poll jobId auth]) = Some r"
          using body unfolding eqs
          by (auto simp: continues_def pending_def split: response.splits option.splits)
        from IH [OF this] have nxt: "P (Suc i)
            (now + int (dur (poll_x up i)) + int (timerDelay pollDelayMs + sleep_late up i))
            (cs @ [Poll jobId auth])"
          "pollJobUntilDone up auth started timeoutMs pollDelayMs jobId (Suc i)
            (now + int (dur (poll_x up i)) + int (timerDelay pollDelayMs + sleep_late up i))
            (cs @ [Poll jobId auth]) = Some r"
          unfolding Q_def by simp_all
        show ?thesis
          using step [OF True nxt(2) nxt(1)] nxt(2) by (simp add: poll_pending [OF True])
      next
        case False
        have "pollJobUntilDone up auth started timeoutMs pollDelayMs jobId i now cs = Some r"
          using body False unfolding eqs
          by (subst pollJobUntilDone.simps)
             (auto simp: continues_def pending_def split: response.splits option.splits if_splits)
        with stop [OF False] show ?thesis by simp
      qed
    qed
  qed
  then show ?thesis by (simp add: Q_def)
qed

lemma timerDelay_pos: "0 < timerDelay d"
  by (cases d) auto

lemma js_lt_finite:
  assumes "js_lt (Num x) timeoutMs" and "timeoutMs \<noteq> PosInf"
  obtains t where "timeoutMs = Num t" and "x < t"
  using assms by (cases timeoutMs) auto

lemma budget_pos:
  "js_lt (Num (now - started)) timeoutMs \<Longrightarrow> timeoutMs \<noteq> PosInf \<Longrightarrow>
   0 < budgetLeft timeoutMs started now"
  by (cases timeoutMs) auto

lemma budget_step:
  "js_lt (Num (now - started)) timeoutMs \<Longrightarrow> timeoutMs \<noteq> PosInf \<Longrightarrow>
   Suc (budgetLeft timeoutMs started (now + int d + int (timerDelay pd + l)))
     \<le> budgetLeft timeoutMs started now"
  using timerDelay_pos [of pd] by (cases timeoutMs) auto

text \<open>Induction along the loop under a finite budget: every round uses up budget.\<close>

lemma poll_budget_induct [consumes 1, case_names round]:
  fixes up :: upstream
  assumes fin: "timeoutMs \<noteq> PosInf"
    and round: "\<And>i now cs.
      (continues up started timeoutMs jobId i now \<Longrightarrow>
         P (Suc i) (now + int (dur (poll_x up i)) + int (timerDelay pollDelayMs + sleep_late up i))
           (cs @ [Poll jobId auth]))
      \<Longrightarrow> P i now cs"
  shows "P i now cs"
proof (induction now arbitrary: i cs rule: measure_induct_rule [where f = "budgetLeft timeoutMs started"])
  case (less now i cs)
  show ?case
  proof (rule round)
    assume c: "continues up started timeoutMs jobId i now"
    then have lt: "js_lt (Num (now - started)) timeoutMs"
      by (simp add: continues_def)
    have "budgetLeft timeoutMs started
            (now + int (dur (poll_x up i)) + int (timerDelay pollDelayMs + sleep_late up i))
          < budgetLeft timeoutMs started now"
      using budget_step [OF lt fin, of "dur (poll_x up i)" pollDelayMs "sleep_late up i"] by simp
    then show "P (Suc i) (now + int (dur (poll_x up i)) + int (timerDelay pollDelayMs + sleep_late up i))
            (cs @ [Poll jobId auth])"
      by (rule less)
  qed
qed

lemma poll_returns:
  fixes up :: upstream
  assumes "timeoutMs \<noteq> PosInf"
  shows "\<exists>r. pollJobUntilDone up auth started timeoutMs pollDelayMs jobId i now cs = Some r"
  using assms
proof (induction i now cs rule: poll_budget_induct [where up = up and started = started
        and jobId = jobId and pollDelayMs = pollDelayMs and auth = auth])
  case (round i now cs)
  show ?case
  proof (cases "continues up started timeoutMs jobId i now")
    case True
    with round show ?thesis by (simp add: poll_pending)
  next
    case False
    from poll_stops [OF this] show ?thesis by blast
  qed
qed

text \<open>With the budget \<^verbatim>\<open>Infinity\<close> and a job that stays pending the loop never returns.\<close>

lemma poll_never_returns:
  fixes up :: upstream
  assumes "convertible jobId" and "\<forall>n. pending (resp (poll_x up n))"
  shows "pollJobUntilDone up auth started PosInf pollDelayMs jobId i now cs = None"
proof (cases "pollJobUntilDone up auth started PosInf pollDelayMs jobId i now cs")
  case None
  then show ?thesis .
next
  case (Some r)
  then have False
  proof (induction rule: poll_run_induct)
    case (stop i now cs)
    with assms show ?case by (simp add: continues_def)
  next
    case (step i now cs)
    then show ?case by simp
  qed
  then show ?thesis ..
qed



lemma poll_not_missing_credential:
  fixes up :: upstream
  assumes "pollJobUntilDone up auth started timeoutMs pollDelayMs jobId i now cs = Some r"
  shows "outcome r \<noteq> Inl MissingCredential"
  using assms
proof (induction rule: poll_run_induct)
  case (stop i now cs)
  from poll_stops [OF stop(1), of auth pollDelayMs cs] stop(2) show ?case by auto
next
  case (step i now cs)
  then show ?case by simp
qed

lemma poll_finished_lower:
  fixes up :: upstream
  assumes "pollJobUntilDone up auth started timeoutMs pollDelayMs jobId i now cs = Some r"
  shows "now \<le> finished r"
  using assms
proof (induction rule: poll_run_induct)
  case (stop i now cs)
  from poll_stops [OF stop(1), of auth pollDelayMs cs] stop(2) show ?case by auto
next
  case (step i now cs)
  then show ?case by simp
qed

lemma poll_count_bound:
  fixes up :: upstream
  assumes "pollJobUntilDone up auth started timeoutMs pollDelayMs jobId i now cs = Some r"
    and "timeoutMs \<noteq> PosInf"
  shows "length (calls r) \<le> length cs + budgetLeft timeoutMs started now"
  using assms
proof (induction rule: poll_run_induct)
  case (stop i now cs)
  from poll_stops [OF stop(1), of auth pollDelayMs cs] stop(2)
  have "(calls r = cs) \<or> (js_lt (Num (now - started)) timeoutMs \<and> calls r = cs @ [Poll jobId auth])"
    by auto
  then show ?case
    using budget_pos [of now started timeoutMs] stop(3) by auto
next
  case (step i now cs)
  then have lt: "js_lt (Num (now - started)) timeoutMs"
    by (simp add: continues_def)
  from step budget_step [OF lt step(4), of "dur (poll_x up i)" pollDelayMs "sleep_late up i"]
  show ?case by simp
qed

lemma poll_finished_upper:
  fixes up :: upstream
  assumes "pollJobUntilDone up auth started timeoutMs pollDelayMs jobId i now cs = Some r"
    and "timeoutMs \<noteq> PosInf"
    and "\<And>n. dur (poll_x up n) \<le> D" and "\<And>n. sleep_late up n \<le> L"
  shows "finished r \<le> latestEnd timeoutMs started now D (timerDelay pollDelayMs + L)"
  using assms(1,2)
proof (induction rule: poll_run_induct)
  case (stop i now cs)
  have d: "dur (poll_x up i) \<le> D" by (rule assms(3))
  from poll_stops [OF stop(1), of auth pollDelayMs cs] stop(2)
  consider "finished r = now"
    | "js_lt (Num (now - started)) timeoutMs" "finished r = now + int (dur (poll_x up i))"
    by auto
  then show ?case
  proof cases
    case 1
    then show ?thesis by (cases timeoutMs) simp_all
  next
    case 2
    from js_lt_finite [OF 2(1) stop(3)] obtain t where "timeoutMs = Num t" "now - started < t" .
    with 2(2) d show ?thesis by simp
  qed
next
  case (step i now cs)
  then have lt: "js_lt (Num (now - started)) timeoutMs"
    by (simp add: continues_def)
  from js_lt_finite [OF lt step(4)] obtain t where t: "timeoutMs = Num t" "now - started < t" .
  have d: "dur (poll_x up i) \<le> D" and l: "sleep_late up i \<le> L"
    by (rule assms(3), rule assms(4))
  let ?now' = "now + int (dur (poll_x up i)) + int (timerDelay pollDelayMs + sleep_late up i)"
  have "latestEnd timeoutMs started ?now' D (timerDelay pollDelayMs + L)
          \<le> latestEnd timeoutMs started now D (timerDelay pollDelayMs + L)"
    using t d l by simp
  with step(3) [OF step(4)] show ?case by simp
qed

lemma clockAt_mono: "k \<le> n \<Longrightarrow> clockAt up pd now0 k \<le> clockAt up pd now0 n"
  by (induction n) (auto simp: le_Suc_eq)

lemma js_lt_mono: "js_lt (Num x) t \<Longrightarrow> y \<le> x \<Longrightarrow> js_lt (Num y) t"
  by (cases t) auto

lemma poll_reaches:
  fixes up :: upstream
  assumes "convertible jobId"
    and "\<And>k. k < n \<Longrightarrow> pending (resp (poll_x up k))"
    and "js_lt (Num (clockAt up pollDelayMs now0 n - started)) timeoutMs"
  shows "pollJobUntilDone up auth started timeoutMs pollDelayMs jobId 0 now0 cs
           = pollJobUntilDone up auth started timeoutMs pollDelayMs jobId n
               (clockAt up pollDelayMs now0 n) (cs @ replicate n (Poll jobId auth))"
  using assms(2,3)
proof (induction n)
  case 0
  show ?case by simp
next
  case (Suc n)
  have "clockAt up pollDelayMs now0 n \<le> clockAt up pollDelayMs now0 (Suc n)"
    by (rule clockAt_mono) simp
  then have lt: "js_lt (Num (clockAt up pollDelayMs now0 n - started)) timeoutMs"
    by (intro js_lt_mono [OF Suc.prems(2)]) simp
  have "pollJobUntilDone up auth started timeoutMs pollDelayMs jobId 0 now0 cs
     = pollJobUntilDone up auth started timeoutMs pollDelayMs jobId n
         (clockAt up pollDelayMs now0 n) (cs @ replicate n (Poll jobId auth))"
    using Suc.prems(1) lt by (intro Suc.IH) simp_all
  also have "\<dots> = pollJobUntilDone up auth started timeoutMs pollDelayMs jobId (Suc n)
         (clockAt up pollDelayMs now0 (Suc n)) (cs @ replicate (Suc n) (Poll jobId auth))"
    using Suc.prems(1) [of n] lt assms(1)
    by (subst poll_pending) (simp_all add: continues_def replicate_append_same)
  finally show ?case .
qed

section \<open>Credentials, session config and the input schema\<close>

lemma handler_no_credential:
  "\<not> truthy_s (or_s (redashApiKey a) (REDASH_KEY env)) \<Longrightarrow>
   getDataHandler env up a
     = Some \<lparr>outcome = Inl MissingCredential, finished = started_at up, calls = []\<rparr>"
  by (simp add: getDataHandler_def)

lemma handler_immediate:
  assumes "or_s (redashApiKey a) (REDASH_KEY env) = Some k" and "k \<noteq> []"
    and "resp (submit_x up) = HttpOk (Some json)"
    and "truthy (getp json ''query_result'')"
  shows "getDataHandler env up a =
           Some \<lparr>outcome = Inr json, finished = started_at up + int (dur (submit_x up)),
                 calls = [submitCall env a k]\<rparr>"
  using assms
  by (simp add: getDataHandler_def submitCall_def maxAgeOf_def Let_def split del: if_split)

lemma handler_polls:
  assumes "or_s (redashApiKey a) (REDASH_KEY env) = Some k" and "k \<noteq> []"
    and "resp (submit_x up) = HttpOk (Some json)"
    and "\<not> truthy (getp json ''query_result'')"
    and "truthy (jobIdOf json)"
  shows "getDataHandler env up a =
           (case pollJobUntilDone up (''Key '' @ k) (started_at up) (timeoutMsOf env a)
                   (pollDelayMsOf env a) (jobIdOf json) 0
                   (started_at up + int (dur (submit_x up))) [submitCall env a k] of
              None \<Rightarrow> None
            | Some p \<Rightarrow>
               (case outcome p of
                  Inl e \<Rightarrow> Some p
                | Inr queryResultId \<Rightarrow>
                    if \<not> convertible queryResultId
                    then Some \<lparr>outcome = Inl TypeError, finished = finished p, calls = calls p\<rparr>
                    else
                      (let cs2 = calls p @ [Fetch queryResultId (''Key '' @ k)];
                           now2 = finished p + int (dur (fetch_x up))
                       in case resp (fetch_x up) of
                            Rejected \<Rightarrow> Some \<lparr>outcome = Inl FetchRejected, finished = now2, calls = cs2\<rparr>
                          | HttpNotOk st stt t \<Rightarrow>
                              Some \<lparr>outcome = Inl (FetchFailed queryResultId st stt t),
                                    finished = now2, calls = cs2\<rparr>
                          | HttpOk None \<Rightarrow> Some \<lparr>outcome = Inl BodyNotJson, finished = now2, calls = cs2\<rparr>
                          | HttpOk (Some qJson) \<Rightarrow>
                              Some \<lparr>outcome = Inr qJson, finished = now2, calls = cs2\<rparr>)))"
  using assms
  by (auto simp: getDataHandler_def timeoutMsOf_def pollDelayMsOf_def jobIdOf_def submitCall_def
        maxAgeOf_def Let_def split: sum.split response.split option.split)


lemma handler_missing_credential_iff:
  "(\<exists>r. getDataHandler env up a = Some r \<and> outcome r = Inl MissingCredential)
     \<longleftrightarrow> \<not> truthy_s (or_s (redashApiKey a) (REDASH_KEY env))"
proof
  assume "\<exists>r. getDataHandler env up a = Some r \<and> outcome r = Inl MissingCredential"
  then obtain r where r: "getDataHandler env up a = Some r" "outcome r = Inl MissingCredential"
    by blast
  show "\<not> truthy_s (or_s (redashApiKey a) (REDASH_KEY env))"
  proof
    assume "truthy_s (or_s (redashApiKey a) (REDASH_KEY env))"
    with r show False
      by (auto simp: getDataHandler_def Let_def dest: poll_not_missing_credential
               split: response.splits option.splits sum.splits if_splits)
  qed
next
  assume "\<not> truthy_s (or_s (redashApiKey a) (REDASH_KEY env))"
  then show "\<exists>r. getDataHandler env up a = Some r \<and> outcome r = Inl MissingCredential"
    by (simp add: handler_no_credential)
qed

lemma tool_is_handler:
  "getDataTool env up st sid g
     = getDataHandler env up
         \<lparr>timeoutSeconds = timeoutSeconds (case sessionTimeouts st sid of
              None \<Rightarrow> \<lparr>timeoutSeconds = None, pollMs = None, maxAgeSeconds = None\<rparr> | Some c \<Rightarrow> c),
          pollMs = pollMs (case sessionTimeouts st sid of
              None \<Rightarrow> \<lparr>timeoutSeconds = None, pollMs = None, maxAgeSeconds = None\<rparr> | Some c \<Rightarrow> c),
          maxAgeSeconds = maxAgeSeconds (case sessionTimeouts st sid of
              None \<Rightarrow> \<lparr>timeoutSeconds = None, pollMs = None, maxAgeSeconds = None\<rparr> | Some c \<Rightarrow> c),
          org = g,
          redashApiKey = or_s (sessionApiKeys st sid) (REDASH_KEY env),
          queryId = sessionQueryIds st sid\<rparr>"
  by (simp add: getDataTool_def Let_def)


lemma tool_missing_credential_iff:
  "(\<exists>r. getDataTool env up st sid g = Some r \<and> outcome r = Inl MissingCredential)
     \<longleftrightarrow> \<not> truthy_s (sessionApiKeys st sid) \<and> \<not> truthy_s (REDASH_KEY env)"
  unfolding tool_is_handler handler_missing_credential_iff
  by (auto simp: or_s_def)

lemma tool_no_credential:
  "\<not> truthy_s (sessionApiKeys st sid) \<Longrightarrow> \<not> truthy_s (REDASH_KEY env) \<Longrightarrow>
   getDataTool env up st sid g
     = Some \<lparr>outcome = Inl MissingCredential, finished = started_at up, calls = []\<rparr>"
  unfolding tool_is_handler
  by (rule handler_no_credential) (auto simp: or_s_def)

lemma post_api_key:
  assumes "postMessages sid hs st = Some st'"
  shows "sessionApiKeys st' sid =
           (if truthy_s (parseAuthHeader (authHeaderOf hs)) then parseAuthHeader (authHeaderOf hs)
            else sessionApiKeys st sid)"
  using assms
  by (auto simp: postMessages_def set_if_def split: if_splits option.splits)

lemmas example_defs = example_env_def example_env_no_key_def example_server_def
  example_server_no_key_def no_headers_def auth_headers_def poll_only_headers_def
  example_arguments_def empty_org_arguments_def no_org_arguments_def cached_upstream_def

lemma example_schema: "inputSchema example_arguments"
  by (simp add: inputSchema_def example_arguments_def)


lemma no_headers_parse: "parseAuthHeader (authHeaderOf no_headers) = None"
  by (simp add: parseAuthHeader_def authHeaderOf_def no_headers_def or_s_def)



lemma http_live:
  assumes "sid \<in> sessionTransports st" and "sid \<in> sessionServers st" and "inputSchema arguments"
  obtains st' where "postMessages sid hs st = Some st'"
    and "httpGetData env up st sid hs arguments
           = Some (st', getDataTool env up st' sid (getp arguments ''org''))"
  using assms by (simp add: httpGetData_def postMessages_def callTool_def)


text \<open>
  C7. A call of \<^verbatim>\<open>getData\<close> with arguments that fit the schema fails with
  \<open>MissingCredential\<close> exactly when no layer gives a credential: the request's
  header parses to none, the session has stored none and the process default is
  unset or empty. An invocation that fails so has made no upstream call. In the
  stdio mode the only layer is the process default.
\<close>

theorem missing_credential_iff:
  assumes "httpGetData env up st sid hs arguments = Some (st', ro)" and "inputSchema arguments"
  shows "((\<exists>r. ro = Some r \<and> outcome r = Inl MissingCredential)
            \<longleftrightarrow> \<not> truthy_s (parseAuthHeader (authHeaderOf hs)) \<and> \<not> truthy_s (sessionApiKeys st sid)
                \<and> \<not> truthy_s (REDASH_KEY env))
       \<and> (\<forall>r. ro = Some r \<and> outcome r = Inl MissingCredential \<longrightarrow> calls r = [])
       \<and> ((\<exists>r. stdioGetData env up arguments = Some r \<and> outcome r = Inl MissingCredential)
            \<longleftrightarrow> \<not> truthy_s (REDASH_KEY env))
       \<and> (\<forall>r. stdioGetData env up arguments = Some r \<and> outcome r = Inl MissingCredential
            \<longrightarrow> calls r = [])"
proof -
  from assms have post: "postMessages sid hs st = Some st'"
    and ro: "ro = getDataTool env up st' sid (getp arguments ''org'')"
    by (auto simp: httpGetData_def callTool_def split: option.splits)
  note key = post_api_key [OF post]
  have iff: "(\<exists>r. ro = Some r \<and> outcome r = Inl MissingCredential)
            \<longleftrightarrow> \<not> truthy_s (parseAuthHeader (authHeaderOf hs)) \<and> \<not> truthy_s (sessionApiKeys st sid)
                \<and> \<not> truthy_s (REDASH_KEY env)"
    unfolding ro tool_missing_credential_iff using key by auto
  have none: "calls r = []" if "ro = Some r" "outcome r = Inl MissingCredential" for r
  proof -
    from that have "\<exists>r. getDataTool env up st' sid (getp arguments ''org'') = Some r
        \<and> outcome r = Inl MissingCredential"
      unfolding ro by blast
    then have "\<not> truthy_s (sessionApiKeys st' sid)" "\<not> truthy_s (REDASH_KEY env)"
      unfolding tool_missing_credential_iff by simp_all
    from tool_no_credential [OF this, of up "getp arguments ''org''"] that(1) show ?thesis
      unfolding ro by auto
  qed
  have std: "stdioGetData env up arguments
               = getDataHandler env up \<lparr>timeoutSeconds = None, pollMs = None, maxAgeSeconds = None,
                   org = getp arguments ''org'', redashApiKey = None, queryId = None\<rparr>"
    using assms(2) by (simp add: stdioGetData_def callTool_def)
  have s1: "(\<exists>r. stdioGetData env up arguments = Some r \<and> outcome r = Inl MissingCredential)
              \<longleftrightarrow> \<not> truthy_s (REDASH_KEY env)"
    unfolding std handler_missing_credential_iff by (simp add: or_s_def)
  have s2: "calls r = []"
    if "stdioGetData env up arguments = Some r" "outcome r = Inl MissingCredential" for r
  proof -
    from that s1 have "\<not> truthy_s (REDASH_KEY env)" by blast
    then have "stdioGetData env up arguments
        = Some \<lparr>outcome = Inl MissingCredential, finished = started_at up, calls = []\<rparr>"
      unfolding std by (intro handler_no_credential) (simp add: or_s_def)
    with that(1) show ?thesis by auto
  qed
  from iff none s1 s2 show ?thesis by blast
qed

theorem missing_credential_iff_witness:
  "(\<exists>st' r. httpGetData example_env_no_key cached_upstream example_server_no_key ''s1'' no_headers
              example_arguments = Some (st', Some r)
            \<and> outcome r = Inl MissingCredential \<and> calls r = [])
   \<and> (\<exists>r. stdioGetData example_env_no_key cached_upstream example_arguments = Some r
            \<and> outcome r = Inl MissingCredential \<and> calls r = [])
   \<and> \<not> (\<exists>r. stdioGetData example_env cached_upstream example_arguments = Some r
            \<and> outcome r = Inl MissingCredential)"
proof -
  have live: "''s1'' \<in> sessionTransports example_server_no_key" "''s1'' \<in> sessionServers example_server_no_key"
    by (simp_all add: example_server_def example_server_no_key_def)
  have keys: "sessionApiKeys example_server_no_key ''s1'' = None" "REDASH_KEY example_env_no_key = None"
     "REDASH_KEY example_env = Some ''envkey''"
    by (simp_all add: example_server_def example_server_no_key_def example_env_def example_env_no_key_def)
  obtain s1 where h1: "httpGetData example_env_no_key cached_upstream example_server_no_key ''s1''
      no_headers example_arguments
        = Some (s1, getDataTool example_env_no_key cached_upstream s1 ''s1'' (getp example_arguments ''org''))"
    by (rule http_live [OF live example_schema])
  note m1 = missing_credential_iff [OF h1 example_schema]
  from m1 no_headers_parse keys
  obtain r1 where r1: "getDataTool example_env_no_key cached_upstream s1 ''s1''
        (getp example_arguments ''org'') = Some r1" "outcome r1 = Inl MissingCredential"
    by auto
  with m1 have c1: "calls r1 = []" by blast
  from m1 keys
  obtain r2 where r2: "stdioGetData example_env_no_key cached_upstream example_arguments = Some r2"
      "outcome r2 = Inl MissingCredential"
    by auto
  with m1 have c2: "calls r2 = []" by blast
  obtain s3 where h3: "httpGetData example_env cached_upstream example_server_no_key ''s1''
      no_headers example_arguments
        = Some (s3, getDataTool example_env cached_upstream s3 ''s1'' (getp example_arguments ''org''))"
    by (rule http_live [OF live example_schema])
  have b: "\<not> (\<exists>r. stdioGetData example_env cached_upstream example_arguments = Some r
            \<and> outcome r = Inl MissingCredential)"
    using missing_credential_iff [OF h3 example_schema] keys by simp
  show ?thesis using h1 r1 c1 r2 c2 b by auto
qed

text \<open>
  C2. The claim asks that a config update keeps the stored value of every field
  it does not supply. The code does not: the session has stored a timeout of 120 s
  and a poll interval of 3000 ms; a \<^verbatim>\<open>POST /messages\<close> that supplies only a poll
  interval of 500 ms stores the object built from this request alone, whose
  timeout is unset. (The stored credential and the stored query id, in the same
  handler, are kept when their headers are absent.)
\<close>

theorem updateConfig_wipes_timeout:
  "map_option timeoutSeconds (sessionTimeouts example_server ''s1'') = Some (Some ''120'')
   \<and> \<not> truthy_s (timeoutSeconds (timeoutConfigOf poll_only_headers))
   \<and> postMessages ''s1'' poll_only_headers example_server
     = Some (example_server\<lparr>sessionTimeouts :=
               [''s1'' \<mapsto> \<lparr>timeoutSeconds = None, pollMs = Some ''500'', maxAgeSeconds = None\<rparr>]\<rparr>)"
  by (simp add: postMessages_def example_server_def poll_only_headers_def set_config_def set_if_def
          timeoutConfigOf_def authHeaderOf_def queryIdOf_def parseAuthHeader_def or_s_def)

text \<open>
  C8, as amended. The schema accepts the arguments exactly when \<^verbatim>\<open>org\<close> is a
  string. A call whose \<^verbatim>\<open>org\<close> is absent or not a string is refused and makes no
  upstream call, in both modes. A call whose \<^verbatim>\<open>org\<close> is a string, the empty one
  included, runs the handler with that \<^verbatim>\<open>org\<close>.
\<close>

theorem org_contract:
  "(inputSchema arguments \<longleftrightarrow> (\<exists>s. getp arguments ''org'' = JStr s))
   \<and> (\<not> inputSchema arguments \<longrightarrow>
        stdioGetData env up arguments
          = Some \<lparr>outcome = Inl InvalidParams, finished = started_at up, calls = []\<rparr>
        \<and> (\<forall>st' ro. httpGetData env up st sid hs arguments = Some (st', ro) \<longrightarrow>
              ro = Some \<lparr>outcome = Inl InvalidParams, finished = started_at up, calls = []\<rparr>))
   \<and> (\<forall>s. getp arguments ''org'' = JStr s \<longrightarrow>
        stdioGetData env up arguments
          = getDataHandler env up \<lparr>timeoutSeconds = None, pollMs = None, maxAgeSeconds = None,
                                   org = JStr s, redashApiKey = None, queryId = None\<rparr>
        \<and> (\<forall>st' ro. httpGetData env up st sid hs arguments = Some (st', ro) \<longrightarrow>
              ro = getDataTool env up st' sid (JStr s)))"
  by (auto simp: inputSchema_def stdioGetData_def httpGetData_def callTool_def
           split: json.splits option.splits)

theorem org_contract_witness:
  "\<not> inputSchema no_org_arguments
   \<and> stdioGetData example_env cached_upstream no_org_arguments
       = Some \<lparr>outcome = Inl InvalidParams, finished = started_at cached_upstream, calls = []\<rparr>
   \<and> inputSchema empty_org_arguments
   \<and> stdioGetData example_env cached_upstream empty_org_arguments
       = getDataHandler example_env cached_upstream
           \<lparr>timeoutSeconds = None, pollMs = None, maxAgeSeconds = None,
            org = JStr [], redashApiKey = None, queryId = None\<rparr>"
proof -
  have a: "\<not> inputSchema no_org_arguments"
    by (simp add: inputSchema_def no_org_arguments_def)
  have b: "getp empty_org_arguments ''org'' = JStr []"
    by (simp add: empty_org_arguments_def)
  show ?thesis
    using org_contract [of no_org_arguments example_env cached_upstream]
      org_contract [of empty_org_arguments example_env cached_upstream] a b
    by simp
qed

text \<open>
  C8 as stated fails: a call with the empty \<^verbatim>\<open>org\<close> is not refused; it submits
  the query with \<^verbatim>\<open>parameters.org\<close> empty and returns the engine's result.
\<close>

theorem org_contract_counterexample:
  "stdioGetData example_env cached_upstream empty_org_arguments
     = Some \<lparr>outcome = Inr (JObj [(''query_result'', JObj [(''id'', JNum 7)])]), finished = 5,
             calls = [Submit ''35173'' ''Key envkey'' (JStr []) None]\<rparr>"
  by (simp add: stdioGetData_def callTool_def inputSchema_def getDataHandler_def example_defs
        or_s_def or_lit_def Let_def)

section \<open>The handler and the poll loop at work\<close>

lemmas parse_defs = parseInt_def parseDigits_def digitOf_def digitsValue_def isWhiteSpace_def
  toDouble_def

lemma example_key: "or_s (redashApiKey example_args) (REDASH_KEY example_env) = Some ''k''"
  by (simp add: example_args_def or_s_def)

lemma example_timeout: "timeoutMsOf example_env example_args = Num 60000"
  by (simp add: timeoutMsOf_def example_args_def example_env_def or_s_def or_lit_def parse_defs)

lemma example_poll_delay: "pollDelayMsOf example_env example_args = Num 2000"
  by (simp add: pollDelayMsOf_def example_args_def example_env_def or_s_def or_lit_def parse_defs)

lemma job_42: "jobIdOf (JObj [(''job'', JObj [(''id'', JStr ''42'')])]) = JStr ''42''"
  by (simp add: jobIdOf_def or_j_def)

text \<open>The no-break space before a number is skipped, as any white space is.\<close>

lemma parseInt_no_break_space: "parseInt [CHR 0xA0, CHR ''5''] = Num 5"
  by (simp add: parse_defs)

text \<open>Beyond \<open>2^53\<close> the value is rounded to a double, ties to even.\<close>

lemma parseInt_rounds: "parseInt ''9007199254740993'' = Num 9007199254740992"
  by (simp add: parse_defs bitLength.simps Let_def)

text \<open>A timeout of 309 nines is an infinite budget.\<close>

lemma huge_timeout: "timeoutMsOf example_env huge_timeout_args = PosInf"
  by (simp add: timeoutMsOf_def huge_timeout_args_def example_args_def example_env_def
        or_s_def or_lit_def parse_defs)

text \<open>
  C4. When a credential resolves and the submit response is ok with a JSON body
  whose \<^verbatim>\<open>query_result\<close> is there (truthy), the handler returns that body as soon
  as the submit call has returned, and the submit call is the only upstream call:
  no poll call and no fetch call is made.
\<close>

theorem immediate_result_no_polls:
  assumes "or_s (redashApiKey a) (REDASH_KEY env) = Some k" and "k \<noteq> []"
    and "resp (submit_x up) = HttpOk (Some json)"
    and "truthy (getp json ''query_result'')"
  shows "\<exists>r. getDataHandler env up a = Some r
       \<and> outcome r = Inr json
       \<and> finished r = started_at up + int (dur (submit_x up))
       \<and> calls r = [submitCall env a k]
       \<and> filter isPoll (calls r) = []
       \<and> filter isFetch (calls r) = []"
  by (simp add: handler_immediate [OF assms] submitCall_def)

theorem immediate_result_no_polls_witness:
  "\<exists>r. getDataHandler example_env cached_upstream example_args = Some r
     \<and> outcome r = Inr (JObj [(''query_result'', JObj [(''id'', JNum 7)])])
     \<and> finished r = 5
     \<and> filter isPoll (calls r) = []
     \<and> filter isFetch (calls r) = []"
proof -
  have s: "resp (submit_x cached_upstream)
             = HttpOk (Some (JObj [(''query_result'', JObj [(''id'', JNum 7)])]))"
    by (simp add: cached_upstream_def)
  have d: "started_at cached_upstream + int (dur (submit_x cached_upstream)) = 5"
    by (simp add: cached_upstream_def)
  show ?thesis
    using immediate_result_no_polls [OF example_key _ s] d by auto
qed

text \<open>
  C10, as amended. When the timeout-seconds text that resolves (argument, else
  environment, else \<^verbatim>\<open>60\<close>) does not parse (\<^verbatim>\<open>parseInt\<close> gives \<^verbatim>\<open>NaN\<close>), the budget
  is \<^verbatim>\<open>NaN\<close>; an invocation whose submit response holds a job id and no result
  then makes no poll call and no fetch call, and fails as soon as the submit call
  has returned: with \<open>PollTimeout\<close> when the job id converts to a string, and with
  the \<open>TypeError\<close> of that conversion when it does not.
\<close>

theorem nan_timeout_polls_nothing:
  assumes "or_s (redashApiKey a) (REDASH_KEY env) = Some k" and "k \<noteq> []"
    and "parseInt (or_lit (or_s (timeoutSeconds a) (QUERY_TIMEOUT_SECONDS env)) ''60'') = NaN"
    and "resp (submit_x up) = HttpOk (Some json)"
    and "\<not> truthy (getp json ''query_result'')"
    and "truthy (jobIdOf json)"
  shows "timeoutMsOf env a = NaN
       \<and> (\<exists>r. getDataHandler env up a = Some r
             \<and> outcome r = (if convertible (jobIdOf json)
                            then Inl (PollTimeout (jobIdOf json) NaN) else Inl TypeError)
             \<and> finished r = started_at up + int (dur (submit_x up))
             \<and> calls r = [submitCall env a k]
             \<and> filter isPoll (calls r) = []
             \<and> filter isFetch (calls r) = [])"
proof -
  have t: "timeoutMsOf env a = NaN"
    using assms(3) by (simp add: timeoutMsOf_def)
  show ?thesis
  proof (cases "convertible (jobIdOf json)")
    case True
    then show ?thesis
      by (simp add: handler_polls [OF assms(1,2,4,5,6)] t poll_timeout submitCall_def)
  next
    case False
    then show ?thesis
      by (simp add: handler_polls [OF assms(1,2,4,5,6)] t poll_not_convertible submitCall_def)
  qed
qed

lemma bad_timeout_key: "or_s (redashApiKey bad_timeout_args) (REDASH_KEY example_env) = Some ''k''"
  by (simp add: bad_timeout_args_def example_args_def or_s_def)

lemma bad_timeout_nan:
  "parseInt (or_lit (or_s (timeoutSeconds bad_timeout_args) (QUERY_TIMEOUT_SECONDS example_env))
     ''60'') = NaN"
  by (simp add: bad_timeout_args_def example_args_def or_s_def or_lit_def parse_defs)

text \<open>
  The timeout text \<^verbatim>\<open>soon\<close>, against the job id \<^verbatim>\<open>42\<close> and against a job id that
  does not convert.
\<close>

theorem nan_timeout_polls_nothing_witness:
  "(\<exists>r. getDataHandler example_env scenario_upstream bad_timeout_args = Some r
      \<and> outcome r = Inl (PollTimeout (JStr ''42'') NaN)
      \<and> finished r = 1020
      \<and> filter isPoll (calls r) = []
      \<and> filter isFetch (calls r) = [])
   \<and> (\<exists>r. getDataHandler example_env odd_id_upstream bad_timeout_args = Some r
      \<and> outcome r = Inl TypeError
      \<and> finished r = 1020
      \<and> filter isPoll (calls r) = []
      \<and> filter isFetch (calls r) = [])"
proof -
  have s: "resp (submit_x scenario_upstream)
             = HttpOk (Some (JObj [(''job'', JObj [(''id'', JStr ''42'')])]))"
    by (simp add: scenario_upstream_def)
  have d: "started_at scenario_upstream + int (dur (submit_x scenario_upstream)) = 1020"
    by (simp add: scenario_upstream_def)
  have a: "\<exists>r. getDataHandler example_env scenario_upstream bad_timeout_args = Some r
      \<and> outcome r = Inl (PollTimeout (JStr ''42'') NaN)
      \<and> finished r = 1020
      \<and> filter isPoll (calls r) = []
      \<and> filter isFetch (calls r) = []"
    using nan_timeout_polls_nothing [OF bad_timeout_key _ bad_timeout_nan s] d
    by (auto simp: job_42)
  let ?odd = "JObj [(''job'', JObj [(''id'', JObj [(''toString'', JNum 1)])])]"
  have s': "resp (submit_x odd_id_upstream) = HttpOk (Some ?odd)"
    by (simp add: odd_id_upstream_def)
  have j': "jobIdOf ?odd = JObj [(''toString'', JNum 1)]"
    by (simp add: jobIdOf_def or_j_def)
  have d': "started_at odd_id_upstream + int (dur (submit_x odd_id_upstream)) = 1020"
    by (simp add: odd_id_upstream_def scenario_upstream_def)
  have b: "\<exists>r. getDataHandler example_env odd_id_upstream bad_timeout_args = Some r
      \<and> outcome r = Inl TypeError
      \<and> finished r = 1020
      \<and> filter isPoll (calls r) = []
      \<and> filter isFetch (calls r) = []"
    using nan_timeout_polls_nothing [OF bad_timeout_key _ bad_timeout_nan s'] d'
    by (auto simp: j')
  from a b show ?thesis by blast
qed

text \<open>
  C10 as stated fails for a job id that does not convert to a string: with the
  timeout text \<^verbatim>\<open>soon\<close> and the submit response
  \<^verbatim>\<open>{"job":{"id":{"toString":1}}}\<close> the invocation makes no poll call, but what it
  throws is the \<open>TypeError\<close> of the timeout message (line 62), not the timeout
  error.
\<close>

theorem nan_timeout_odd_id_counterexample:
  "getDataHandler example_env odd_id_upstream bad_timeout_args
     = Some \<lparr>outcome = Inl TypeError, finished = 1020,
             calls = [Submit ''35173'' ''Key k'' (JStr ''acme.com'') None]\<rparr>"
  by (simp add: getDataHandler_def pollJobUntilDone.simps odd_id_upstream_def scenario_upstream_def
        bad_timeout_args_def example_args_def example_env_def or_s_def or_lit_def or_j_def
        parse_defs Let_def)

text \<open>
  C9. The submit response holds a job id and no result; the first \<open>n\<close> polls are
  pending, the \<open>n\<close>-th check of the loop condition is within the budget, and the
  answer to the next poll reports status 3 with a result id that is falsy in both
  shapes (\<^verbatim>\<open>job.result.query_result_id\<close> and \<^verbatim>\<open>job.query_result_id\<close>: absent, 0,
  the empty string, \<^verbatim>\<open>null\<close> or \<^verbatim>\<open>false\<close>). The job id converts to a string: the
  poll that the answer belongs to is made only then (line 33). Then the
  invocation fails with \<open>MissingResultReference\<close> after \<open>n + 1\<close> polls, and fetches
  nothing.
\<close>

theorem falsy_result_id_missing_reference:
  assumes "or_s (redashApiKey a) (REDASH_KEY env) = Some k" and "k \<noteq> []"
    and "resp (submit_x up) = HttpOk (Some json)"
    and "\<not> truthy (getp json ''query_result'')"
    and "truthy (jobIdOf json)"
    and "convertible (jobIdOf json)"
    and "\<forall>i<n. pending (resp (poll_x up i))"
    and "js_lt (Num (clockAt up (pollDelayMsOf env a) (started_at up + int (dur (submit_x up))) n
                       - started_at up)) (timeoutMsOf env a)"
    and "resp (poll_x up n) = HttpOk (Some jobJson)"
    and "getp (getp jobJson ''job'') ''status'' = JNum 3"
    and "\<not> truthy (getp (getp (getp jobJson ''job'') ''result'') ''query_result_id'')"
    and "\<not> truthy (getp (getp jobJson ''job'') ''query_result_id'')"
  shows "\<exists>r. getDataHandler env up a = Some r
       \<and> outcome r = Inl (MissingResultReference (jobIdOf json))
       \<and> calls r = submitCall env a k # replicate (Suc n) (Poll (jobIdOf json) (''Key '' @ k))
       \<and> filter isFetch (calls r) = []"
proof -
  let ?now0 = "started_at up + int (dur (submit_x up))"
  let ?p = "pollJobUntilDone up (''Key '' @ k) (started_at up) (timeoutMsOf env a)
              (pollDelayMsOf env a) (jobIdOf json) 0 ?now0 [submitCall env a k]"
  have "?p = pollJobUntilDone up (''Key '' @ k) (started_at up) (timeoutMsOf env a)
              (pollDelayMsOf env a) (jobIdOf json) n (clockAt up (pollDelayMsOf env a) ?now0 n)
              ([submitCall env a k] @ replicate n (Poll (jobIdOf json) (''Key '' @ k)))"
    using assms(6,7,8) by (intro poll_reaches) auto
  also have "\<dots> = Some \<lparr>outcome = Inl (MissingResultReference (jobIdOf json)),
                   finished = clockAt up (pollDelayMsOf env a) ?now0 n + int (dur (poll_x up n)),
                   calls = ([submitCall env a k] @ replicate n (Poll (jobIdOf json) (''Key '' @ k)))
                            @ [Poll (jobIdOf json) (''Key '' @ k)]\<rparr>"
    using assms(11,12) by (subst poll_done [OF assms(8,6,9,10) refl]) (simp add: or_j_def)
  finally have p: "?p = Some \<lparr>outcome = Inl (MissingResultReference (jobIdOf json)),
                   finished = clockAt up (pollDelayMsOf env a) ?now0 n + int (dur (poll_x up n)),
                   calls = submitCall env a k # replicate (Suc n) (Poll (jobIdOf json) (''Key '' @ k))\<rparr>"
    by (simp add: replicate_append_same)
  have "getDataHandler env up a = ?p"
    using p by (simp add: handler_polls [OF assms(1-5)])
  with p show ?thesis
    by (simp add: submitCall_def)
qed

text \<open>
  The result id 0 at the first poll, and the pair of the empty string and 0 at the
  second poll: in both the id field is present, and both fail.
\<close>

theorem falsy_result_id_missing_reference_witness:
  "(\<exists>r. getDataHandler example_env zero_id_upstream example_args = Some r
      \<and> outcome r = Inl (MissingResultReference (JStr ''42''))
      \<and> filter isFetch (calls r) = [])
   \<and> (\<exists>r. getDataHandler example_env empty_id_upstream example_args = Some r
      \<and> outcome r = Inl (MissingResultReference (JStr ''42''))
      \<and> filter isFetch (calls r) = [])"
proof -
  have s: "resp (submit_x zero_id_upstream) = HttpOk (Some (JObj [(''job'', JObj [(''id'', JStr ''42'')])]))"
    "resp (submit_x empty_id_upstream) = HttpOk (Some (JObj [(''job'', JObj [(''id'', JStr ''42'')])]))"
    by (simp_all add: zero_id_upstream_def empty_id_upstream_def scenario_upstream_def)
  have q: "\<not> truthy (getp (JObj [(''job'', JObj [(''id'', JStr ''42'')])]) ''query_result'')"
    by simp
  have j: "truthy (jobIdOf (JObj [(''job'', JObj [(''id'', JStr ''42'')])]))"
    and c: "convertible (jobIdOf (JObj [(''job'', JObj [(''id'', JStr ''42'')])]))"
    by (simp_all add: job_42)
  have r0: "resp (poll_x zero_id_upstream 0)
              = HttpOk (Some (JObj [(''job'', JObj [(''status'', JNum 3), (''query_result_id'', JNum 0)])]))"
    by (simp add: zero_id_upstream_def)
  have t0: "js_lt (Num (clockAt zero_id_upstream (pollDelayMsOf example_env example_args)
                    (started_at zero_id_upstream + int (dur (submit_x zero_id_upstream))) 0
                  - started_at zero_id_upstream)) (timeoutMsOf example_env example_args)"
    by (simp add: example_timeout zero_id_upstream_def scenario_upstream_def)
  have a: "\<exists>r. getDataHandler example_env zero_id_upstream example_args = Some r
      \<and> outcome r = Inl (MissingResultReference (JStr ''42''))
      \<and> filter isFetch (calls r) = []"
    using falsy_result_id_missing_reference [OF example_key _ s(1) q j c _ t0 r0]
    by (auto simp: job_42 submitCall_def)
  have r1: "resp (poll_x empty_id_upstream 1)
              = HttpOk (Some (JObj [(''job'', JObj [(''status'', JNum 3),
                   (''result'', JObj [(''query_result_id'', JStr [])]), (''query_result_id'', JNum 0)])]))"
    by (simp add: empty_id_upstream_def)
  have p1: "\<forall>i<1. pending (resp (poll_x empty_id_upstream i))"
    by (simp add: empty_id_upstream_def pending_def)
  have t1: "js_lt (Num (clockAt empty_id_upstream (pollDelayMsOf example_env example_args)
                    (started_at empty_id_upstream + int (dur (submit_x empty_id_upstream))) 1
                  - started_at empty_id_upstream)) (timeoutMsOf example_env example_args)"
    by (simp add: example_timeout example_poll_delay empty_id_upstream_def scenario_upstream_def)
  have b: "\<exists>r. getDataHandler example_env empty_id_upstream example_args = Some r
      \<and> outcome r = Inl (MissingResultReference (JStr ''42''))
      \<and> filter isFetch (calls r) = []"
    using falsy_result_id_missing_reference [OF example_key _ s(2) q j c p1 t1 r1]
    by (auto simp: job_42 submitCall_def)
  from a b show ?thesis by blast
qed

text \<open>
  C5, as amended. The submit response is \<^verbatim>\<open>{job: {id: "42"}}\<close>, the polls answer
  status 1, status 2, and status 3 with the result id \<^verbatim>\<open>99\<close>, the fetch answers
  \<^verbatim>\<open>{"rows":[]}\<close>, and the third check of the loop condition is within the budget.
  Then the invocation returns \<^verbatim>\<open>{"rows":[]}\<close> after exactly three poll calls, one
  per answer, and one fetch call, made with the id \<^verbatim>\<open>99\<close>.
\<close>

theorem scenario_three_polls:
  assumes "or_s (redashApiKey a) (REDASH_KEY env) = Some k" and "k \<noteq> []"
    and "resp (submit_x up) = HttpOk (Some (JObj [(''job'', JObj [(''id'', JStr ''42'')])]))"
    and "resp (poll_x up 0) = HttpOk (Some (JObj [(''job'', JObj [(''status'', JNum 1)])]))"
    and "resp (poll_x up 1) = HttpOk (Some (JObj [(''job'', JObj [(''status'', JNum 2)])]))"
    and "resp (poll_x up 2)
           = HttpOk (Some (JObj [(''job'', JObj [(''status'', JNum 3), (''query_result_id'', JStr ''99'')])]))"
    and "resp (fetch_x up) = HttpOk (Some (JObj [(''rows'', JArr [])]))"
    and "js_lt (Num (clockAt up (pollDelayMsOf env a) (started_at up + int (dur (submit_x up))) 2
                       - started_at up)) (timeoutMsOf env a)"
  shows "\<exists>r. getDataHandler env up a = Some r
       \<and> outcome r = Inr (JObj [(''rows'', JArr [])])
       \<and> calls r
           = submitCall env a k # replicate 3 (Poll (JStr ''42'') (''Key '' @ k))
               @ [Fetch (JStr ''99'') (''Key '' @ k)]
       \<and> length (filter isPoll (calls r)) = 3
       \<and> filter isFetch (calls r) = [Fetch (JStr ''99'') (''Key '' @ k)]"
proof -
  let ?json = "JObj [(''job'', JObj [(''id'', JStr ''42'')])]"
  let ?now0 = "started_at up + int (dur (submit_x up))"
  let ?auth = "''Key '' @ k"
  let ?p = "pollJobUntilDone up ?auth (started_at up) (timeoutMsOf env a)
              (pollDelayMsOf env a) (JStr ''42'') 0 ?now0 [submitCall env a k]"
  have pend: "pending (resp (poll_x up i))" if "i < 2" for i
  proof -
    from that have "i = 0 \<or> i = 1" by auto
    then show ?thesis using assms(4,5) by (auto simp: pending_def)
  qed
  have "?p = pollJobUntilDone up ?auth (started_at up) (timeoutMsOf env a)
              (pollDelayMsOf env a) (JStr ''42'') 2 (clockAt up (pollDelayMsOf env a) ?now0 2)
              ([submitCall env a k] @ replicate 2 (Poll (JStr ''42'') ?auth))"
    using pend assms(8) by (intro poll_reaches) auto
  also have "\<dots> = Some \<lparr>outcome = Inr (JStr ''99''),
                   finished = clockAt up (pollDelayMsOf env a) ?now0 2 + int (dur (poll_x up 2)),
                   calls = ([submitCall env a k] @ replicate 2 (Poll (JStr ''42'') ?auth))
                            @ [Poll (JStr ''42'') ?auth]\<rparr>"
    by (subst poll_done [OF assms(8) _ assms(6) _ refl]) (simp_all add: or_j_def)
  finally have p: "?p = Some \<lparr>outcome = Inr (JStr ''99''),
                   finished = clockAt up (pollDelayMsOf env a) ?now0 2 + int (dur (poll_x up 2)),
                   calls = submitCall env a k # replicate 3 (Poll (JStr ''42'') ?auth)\<rparr>"
    by (simp add: numeral_3_eq_3 numeral_2_eq_2)
  have q: "\<not> truthy (getp ?json ''query_result'')" by simp
  have j: "truthy (jobIdOf ?json)" by (simp add: job_42)
  have "getDataHandler env up a
          = Some \<lparr>outcome = Inr (JObj [(''rows'', JArr [])]),
             finished = clockAt up (pollDelayMsOf env a) ?now0 2 + int (dur (poll_x up 2))
                          + int (dur (fetch_x up)),
             calls = submitCall env a k # replicate 3 (Poll (JStr ''42'') ?auth)
                       @ [Fetch (JStr ''99'') ?auth]\<rparr>"
    using p assms(7) by (simp add: handler_polls [OF assms(1,2,3) q j] job_42 Let_def)
  then show ?thesis
    by (simp add: submitCall_def numeral_3_eq_3)
qed

theorem scenario_three_polls_witness:
  "\<exists>r. getDataHandler example_env scenario_upstream example_args = Some r
     \<and> outcome r = Inr (JObj [(''rows'', JArr [])])
     \<and> length (filter isPoll (calls r)) = 3
     \<and> filter isFetch (calls r) = [Fetch (JStr ''99'') ''Key k'']"
proof -
  have t: "js_lt (Num (clockAt scenario_upstream (pollDelayMsOf example_env example_args)
                    (started_at scenario_upstream + int (dur (submit_x scenario_upstream))) 2
                  - started_at scenario_upstream)) (timeoutMsOf example_env example_args)"
    by (simp add: example_timeout example_poll_delay scenario_upstream_def numeral_2_eq_2)
  have s: "resp (submit_x scenario_upstream) = HttpOk (Some (JObj [(''job'', JObj [(''id'', JStr ''42'')])]))"
    and p0: "resp (poll_x scenario_upstream 0) = HttpOk (Some (JObj [(''job'', JObj [(''status'', JNum 1)])]))"
    and p1: "resp (poll_x scenario_upstream 1) = HttpOk (Some (JObj [(''job'', JObj [(''status'', JNum 2)])]))"
    and p2: "resp (poll_x scenario_upstream 2)
               = HttpOk (Some (JObj [(''job'', JObj [(''status'', JNum 3),
                                                     (''query_result_id'', JStr ''99'')])]))"
    and f: "resp (fetch_x scenario_upstream) = HttpOk (Some (JObj [(''rows'', JArr [])]))"
    by (simp_all add: scenario_upstream_def)
  show ?thesis
    using scenario_three_polls [OF example_key _ s p0 p1 p2 f t]
    by (auto simp: submitCall_def)
qed

text \<open>
  C5 as stated fails: in the scenario, with the default budget of 60 s and the
  default poll interval of 2 s, the number of poll calls is not 2.
\<close>

theorem scenario_two_polls_counterexample:
  "getDataHandler example_env scenario_upstream example_args
     = Some \<lparr>outcome = Inr (JObj [(''rows'', JArr [])]), finished = 5100,
             calls = [Submit ''35173'' ''Key k'' (JStr ''acme.com'') None,
                      Poll (JStr ''42'') ''Key k'', Poll (JStr ''42'') ''Key k'',
                      Poll (JStr ''42'') ''Key k'', Fetch (JStr ''99'') ''Key k'']\<rparr>
   \<and> length (filter isPoll
        [Submit ''35173'' ''Key k'' (JStr ''acme.com'') None,
         Poll (JStr ''42'') ''Key k'', Poll (JStr ''42'') ''Key k'',
         Poll (JStr ''42'') ''Key k'', Fetch (JStr ''99'') ''Key k'']) \<noteq> 2"
  by (simp add: getDataHandler_def pollJobUntilDone.simps scenario_upstream_def example_args_def
        example_env_def or_s_def or_lit_def or_j_def parse_defs Let_def)

text \<open>
  C3, as amended. Under a budget that is not \<^verbatim>\<open>Infinity\<close> the loop ends, whatever
  the engine answers. Entered when the clock reads \<open>now\<close>, it makes at most one
  poll call per millisecond of budget left, and none when the budget is \<^verbatim>\<open>NaN\<close>.
  It does not end before \<open>now\<close>. When no poll exchange takes more than \<open>D\<close> ms and
  no sleep wakes more than \<open>L\<close> ms late, it ends no later than
  \<open>started + t - 1 + D + P + L\<close>, where \<open>t\<close> is the budget and \<open>P\<close> the delay of the
  timer, or at \<open>now\<close> if that is later: the last iteration starts before the
  deadline, and nothing cuts its poll exchange short. With exchanges that take no
  time and exact sleeps this is within \<open>timeoutBudget + pollInterval\<close> of the start.
\<close>

theorem poll_loop_bounded:
  fixes up :: upstream
  assumes "timeoutMs \<noteq> PosInf"
  shows "\<exists>r. pollJobUntilDone up auth started timeoutMs pollDelayMs jobId i now cs = Some r
       \<and> length (calls r) \<le> length cs + budgetLeft timeoutMs started now
       \<and> now \<le> finished r
       \<and> ((\<forall>n. dur (poll_x up n) \<le> D) \<and> (\<forall>n. sleep_late up n \<le> L) \<longrightarrow>
            finished r \<le> latestEnd timeoutMs started now D (timerDelay pollDelayMs + L))"
proof -
  from poll_returns [OF assms]
  obtain r where r: "pollJobUntilDone up auth started timeoutMs pollDelayMs jobId i now cs = Some r"
    by blast
  have "finished r \<le> latestEnd timeoutMs started now D (timerDelay pollDelayMs + L)"
    if "\<forall>n. dur (poll_x up n) \<le> D" and "\<forall>n. sleep_late up n \<le> L"
    using that by (intro poll_finished_upper [OF r assms]) auto
  then show ?thesis
    using r poll_count_bound [OF r assms] poll_finished_lower [OF r]
    by blast
qed

text \<open>
  Against the engine whose poll exchanges take 5 s, with a budget of 1 s and a
  poll interval of 100 ms: at most 1000 poll calls, and an end by 6099.
\<close>

theorem poll_loop_bounded_witness:
  "\<exists>r. pollJobUntilDone slow_upstream ''Key k'' 0 (Num 1000) (Num 100) (JStr ''42'') 0 0 [] = Some r
     \<and> length (calls r) \<le> 1000
     \<and> 0 \<le> finished r
     \<and> finished r \<le> 6099"
proof -
  have d: "\<forall>n. dur (poll_x slow_upstream n) \<le> 5000" and l: "\<forall>n. sleep_late slow_upstream n \<le> 0"
    by (simp_all add: slow_upstream_def)
  have f: "Num 1000 \<noteq> PosInf" by simp
  show ?thesis
    using poll_loop_bounded [OF f, where up = slow_upstream and D = 5000 and L = 0
        and cs = "[]" and started = 0
        and now = 0 and auth = "''Key k''" and pollDelayMs = "Num 100" and jobId = "JStr ''42''"
        and i = 0] d l
    by auto
qed

text \<open>
  C3 as stated fails: with a budget of 1 s, a poll interval of 100 ms and an engine
  whose poll exchange takes 5 s, the loop is entered at 0, polls once, sleeps, and
  ends with \<open>PollTimeout\<close> when the clock reads 5100, later than 1000 + 100.
\<close>

theorem poll_loop_deadline_counterexample:
  "timeoutMsOf example_env short_timeout_args = Num 1000
   \<and> pollDelayMsOf example_env short_timeout_args = Num 100
   \<and> started_at slow_upstream = 0
   \<and> pollJobUntilDone slow_upstream ''Key k'' 0 (Num 1000) (Num 100) (JStr ''42'') 0 0 []
       = Some \<lparr>outcome = Inl (PollTimeout (JStr ''42'') (Num 1000)), finished = 5100,
               calls = [Poll (JStr ''42'') ''Key k'']\<rparr>
   \<and> getDataHandler example_env slow_upstream short_timeout_args
       = Some \<lparr>outcome = Inl (PollTimeout (JStr ''42'') (Num 1000)), finished = 5100,
               calls = [Submit ''35173'' ''Key k'' (JStr ''acme.com'') None,
                        Poll (JStr ''42'') ''Key k'']\<rparr>
   \<and> \<not> (5100 :: int) \<le> started_at slow_upstream + 1000 + 100"
  by (simp add: getDataHandler_def timeoutMsOf_def pollDelayMsOf_def pollJobUntilDone.simps
        slow_upstream_def short_timeout_args_def example_args_def
        example_env_def or_s_def or_lit_def or_j_def parse_defs Let_def)

text \<open>With a timeout of 309 nines and a job that stays queued the invocation never ends.\<close>

lemma infinite_budget_never_returns:
  "getDataHandler example_env queued_upstream huge_timeout_args = None"
proof -
  have k: "or_s (redashApiKey huge_timeout_args) (REDASH_KEY example_env) = Some ''k''"
    by (simp add: huge_timeout_args_def example_args_def or_s_def)
  have s: "resp (submit_x queued_upstream) = HttpOk (Some (JObj [(''job'', JObj [(''id'', JStr ''42'')])]))"
    by (simp add: queued_upstream_def scenario_upstream_def)
  have q: "\<not> truthy (getp (JObj [(''job'', JObj [(''id'', JStr ''42'')])]) ''query_result'')"
    by simp
  have j: "truthy (jobIdOf (JObj [(''job'', JObj [(''id'', JStr ''42'')])]))"
    by (simp add: job_42)
  have p: "\<forall>n. pending (resp (poll_x queued_upstream n))"
    by (simp add: queued_upstream_def pending_def)
  show ?thesis
    by (simp add: handler_polls [OF k _ s q j] huge_timeout job_42 poll_never_returns [OF _ p])
qed

end
